theory Spec2Isabelle
  imports Main "HOL-Library.Multiset" "HOL-Library.Product_Lexorder"
begin

section \<open>JavaScript strings\<close>

text \<open>
  Strings of the program are modelled as \<^typ>\<open>string\<close>: a list of code units, here
  restricted to the Latin-1 range that \<^typ>\<open>char\<close> covers.  The character classes
  below are the ones the regular expressions and string methods of \<^verbatim>\<open>index.ts\<close> use:
  \<^verbatim>\<open>\d\<close> is \<^verbatim>\<open>[0-9]\<close>; \<^verbatim>\<open>\s\<close> and \<^verbatim>\<open>trim\<close> share one white-space class
  (tab, line feed, vertical tab, form feed, carriage return, space, no-break space).
\<close>

definition isDigit :: "char \<Rightarrow> bool" where
  "isDigit c = (48 \<le> (of_char c :: nat) \<and> (of_char c :: nat) \<le> 57)"

definition isWhiteSpace :: "char \<Rightarrow> bool" where
  "isWhiteSpace c = ((of_char c :: nat) \<in> {9, 10, 11, 12, 13, 32, 160})"

definition NL :: char where
  "NL = CHR 0x0A"

definition BS :: char where
  "BS = CHR 0x5C"

definition DQ :: char where
  "DQ = CHR 0x22"

text \<open>\<^verbatim>\<open>s.trim()\<close>\<close>

definition trim :: "string \<Rightarrow> string" where
  "trim s = rev (dropWhile isWhiteSpace (rev (dropWhile isWhiteSpace s)))"

text \<open>\<^verbatim>\<open>xs.join(sep)\<close>\<close>

fun join :: "string \<Rightarrow> string list \<Rightarrow> string" where
  "join sep [] = []"
| "join sep [x] = x"
| "join sep (x # y # ys) = x @ sep @ join sep (y # ys)"

text \<open>
  \<^verbatim>\<open>s.toLowerCase()\<close> on Latin-1 code units: \<^verbatim>\<open>A-Z\<close> and the accented capitals
  \<^verbatim>\<open>U+00C0..U+00DE\<close> (without the multiplication sign \<^verbatim>\<open>U+00D7\<close>) move up by 32.
\<close>

definition toLowerChar :: "char \<Rightarrow> char" where
  "toLowerChar c =
     (let n = (of_char c :: nat)
      in if (65 \<le> n \<and> n \<le> 90) \<or> (192 \<le> n \<and> n \<le> 222 \<and> n \<noteq> 215)
         then char_of (n + 32) else c)"

definition toLowerCase :: "string \<Rightarrow> string" where
  "toLowerCase s = map toLowerChar s"

text \<open>\<^verbatim>\<open>s.includes(t)\<close>: \<open>t\<close> occurs in \<open>s\<close> as a contiguous substring.\<close>

fun startsWith :: "string \<Rightarrow> string \<Rightarrow> bool" where
  "startsWith s [] = True"
| "startsWith [] (t # ts) = False"
| "startsWith (c # cs) (t # ts) = (c = t \<and> startsWith cs ts)"

fun includesStr :: "string \<Rightarrow> string \<Rightarrow> bool" where
  "includesStr [] t = (t = [])"
| "includesStr (c # cs) t = (startsWith (c # cs) t \<or> includesStr cs t)"

text \<open>
  \<^verbatim>\<open>s.split(/\s+/)\<close>: the pieces between maximal runs of white space; a string that
  starts or ends with white space yields an empty first or last piece.
\<close>

function splitWhiteSpace :: "string \<Rightarrow> string list" where
  "splitWhiteSpace s =
     (let w = takeWhile (\<lambda>c. \<not> isWhiteSpace c) s;
          r = dropWhile (\<lambda>c. \<not> isWhiteSpace c) s
      in if r = [] then [w] else w # splitWhiteSpace (dropWhile isWhiteSpace r))"
  by pat_completeness auto
termination
proof (relation "measure length", goal_cases)
  case 1
  show ?case by simp
next
  case (2 s w r)
  have "length (dropWhile isWhiteSpace (dropWhile (\<lambda>c. \<not> isWhiteSpace c) t)) < length t"
    if "dropWhile (\<lambda>c. \<not> isWhiteSpace c) t \<noteq> []" for t
    using that
  proof (induction t)
    case Nil
    then show ?case by simp
  next
    case (Cons x xs)
    show ?case
    proof (cases "isWhiteSpace x")
      case True
      then show ?thesis
        by (simp add: length_dropWhile_le less_Suc_eq_le)
    next
      case False
      with Cons show ?thesis
        by (simp add: less_Suc_eq)
    qed
  qed
  with 2 show ?case by simp
qed

declare splitWhiteSpace.simps [simp del]

text \<open>\<^verbatim>\<open>s.split(c)\<close> for a one-character separator.\<close>

fun splitChar :: "char \<Rightarrow> string \<Rightarrow> string list" where
  "splitChar sep [] = [[]]"
| "splitChar sep (c # cs) =
     (if c = sep then [] # splitChar sep cs
      else (case splitChar sep cs of
              [] \<Rightarrow> [[c]]
            | p # ps \<Rightarrow> (c # p) # ps))"

text \<open>
  \<^verbatim>\<open>s.replace(/\$(\d+)/g, '\\$$$1')\<close>.  The replacement pattern is the five
  characters backslash, \<^verbatim>\<open>$$\<close> (a literal dollar) and \<^verbatim>\<open>$1\<close> (the digits
  matched): every dollar sign followed by at least one digit gets a backslash in
  front, and matching resumes after the digits.
\<close>

function escapeDollar :: "string \<Rightarrow> string" where
  "escapeDollar [] = []"
| "escapeDollar (c # cs) =
     (if c = CHR ''$'' \<and> takeWhile isDigit cs \<noteq> []
      then BS # CHR ''$'' # takeWhile isDigit cs @ escapeDollar (dropWhile isDigit cs)
      else c # escapeDollar cs)"
  by pat_completeness auto
termination
  by (relation "measure length") (auto simp: length_dropWhile_le less_Suc_eq_le)

text \<open>
  \<^verbatim>\<open>s.replace(/\n\n\n+/g, '\n\n')\<close>: a maximal run of three or more line feeds
  becomes two.
\<close>

function collapseNewlines :: "string \<Rightarrow> string" where
  "collapseNewlines [] = []"
| "collapseNewlines (c # cs) =
     (if c = NL \<and> 2 \<le> length (takeWhile (\<lambda>d. d = NL) cs)
      then NL # NL # collapseNewlines (dropWhile (\<lambda>d. d = NL) cs)
      else c # collapseNewlines cs)"
  by pat_completeness auto
termination
  by (relation "measure length") (auto simp: length_dropWhile_le less_Suc_eq_le)

text \<open>
  Template-literal rendering of an integer, in decimal (as JavaScript prints every
  integer below \<open>10\<^sup>2\<^sup>1\<close> in absolute value); \<open>digitsOf\<close> is for the non-negative ones.
\<close>

fun digitsOf :: "nat \<Rightarrow> string" where
  "digitsOf n = (if n < 10 then [char_of (48 + n)] else digitsOf (n div 10) @ [char_of (48 + n mod 10)])"

declare digitsOf.simps [simp del]

definition showInt :: "int \<Rightarrow> string" where
  "showInt i = (if i < 0 then CHR ''-'' # digitsOf (nat (- i)) else digitsOf (nat i))"

section \<open>The parsed document\<close>

text \<open>
  \<^verbatim>\<open>new JSDOM(html)\<close> is the HTML parser of a library; the program only walks the tree
  it returns.  A node is a text node, an element (with \<^verbatim>\<open>tagName.toLowerCase()\<close>, its
  attributes in order, and its child nodes), or a node of another type (a comment).
\<close>

datatype node =
    Text string
  | Comment string
  | Element string "(string \<times> string) list" "node list"

fun isElement :: "node \<Rightarrow> bool" where
  "isElement (Element tag attrs kids) = True"
| "isElement _ = False"

text \<open>\<^verbatim>\<open>element.textContent\<close>: the data of all descendant text nodes, in tree order.\<close>

fun descendantText :: "node \<Rightarrow> string" where
  "descendantText (Text s) = s"
| "descendantText (Comment s) = []"
| "descendantText (Element tag attrs kids) = concat (map descendantText kids)"

definition textContent :: "node list \<Rightarrow> string" where
  "textContent kids = concat (map descendantText kids)"

text \<open>\<^verbatim>\<open>element.getAttribute(name)\<close>: the first attribute of that name, or null.\<close>

definition getAttribute :: "(string \<times> string) list \<Rightarrow> string \<Rightarrow> string option" where
  "getAttribute attrs name = map_of attrs name"

text \<open>\<^verbatim>\<open>x || ''\<close> on a string that may be null.\<close>

definition orEmpty :: "string option \<Rightarrow> string" where
  "orEmpty x = (case x of None \<Rightarrow> [] | Some s \<Rightarrow> s)"

text \<open>JavaScript truthiness of a string that may be null or undefined.\<close>

definition truthy :: "string option \<Rightarrow> bool" where
  "truthy x = (case x of None \<Rightarrow> False | Some s \<Rightarrow> s \<noteq> [])"

section \<open>HTML rendering pipeline\<close>

text \<open>\<^verbatim>\<open>getTextContent\<close> inside \<^verbatim>\<open>convertHtmlToMarkdown\<close>.\<close>

definition getTextContent :: "node list \<Rightarrow> string" where
  "getTextContent kids = escapeDollar (textContent kids)"

text \<open>
  \<^verbatim>\<open>processNode\<close>.  \<^verbatim>\<open>element.children\<close> (used for \<^verbatim>\<open>ul\<close> and \<^verbatim>\<open>ol\<close>) are
  the element children only; \<^verbatim>\<open>element.childNodes\<close> are all children.
\<close>

definition numbered :: "string list \<Rightarrow> string list" where
  "numbered items =
     map (\<lambda>(i, s). digitsOf (i + 1) @ ''. '' @ s) (zip [0 ..< length items] items)"

fun processNode :: "node \<Rightarrow> string" where
  "processNode (Text s) = escapeDollar s"
| "processNode (Comment s) = []"
| "processNode (Element tag attrs kids) =
     (if tag = ''h1'' then ''# '' @ getTextContent kids @ [NL, NL]
      else if tag = ''h2'' then ''## '' @ getTextContent kids @ [NL, NL]
      else if tag = ''h3'' then ''### '' @ getTextContent kids @ [NL, NL]
      else if tag = ''strong'' \<or> tag = ''b'' then ''**'' @ getTextContent kids @ ''**''
      else if tag = ''em'' \<or> tag = ''i'' then ''*'' @ getTextContent kids @ ''*''
      else if tag = ''ul'' then
        join [NL] (map (\<lambda>s. ''- '' @ s) (map processNode (filter isElement kids))) @ [NL, NL]
      else if tag = ''ol'' then
        join [NL] (numbered (map processNode (filter isElement kids))) @ [NL, NL]
      else if tag = ''li'' then trim (concat (map processNode kids))
      else if tag = ''p'' then concat (map processNode kids) @ [NL, NL]
      else if tag = ''br'' then [NL]
      else if tag = ''a'' then
        (let href = getAttribute attrs ''href''; text = getTextContent kids
         in if truthy href then ''['' @ text @ '']('' @ orEmpty href @ '')'' else text)
      else concat (map processNode kids))"

text \<open>
  The three conversions on the child nodes of \<^verbatim>\<open>document.body\<close>, and then on the
  HTML source, with the parser as a parameter.
\<close>

definition markdownOfBody :: "node list \<Rightarrow> string" where
  "markdownOfBody body = collapseNewlines (trim (concat (map processNode body)))"

definition convertHtmlToMarkdown :: "(string \<Rightarrow> node list) \<Rightarrow> string \<Rightarrow> string" where
  "convertHtmlToMarkdown parseBody html = markdownOfBody (parseBody html)"

definition htmlToPlainText :: "(string \<Rightarrow> node list) \<Rightarrow> string option \<Rightarrow> string" where
  "htmlToPlainText parseBody html =
     (case html of
        None \<Rightarrow> []
      | Some h \<Rightarrow> if h = [] then [] else escapeDollar (textContent (parseBody h)))"

record link =
  link_text :: string
  link_href :: string

text \<open>\<^verbatim>\<open>querySelectorAll('a')\<close>: every anchor element, in document order.\<close>

fun anchors :: "node \<Rightarrow> ((string \<times> string) list \<times> node list) list" where
  "anchors (Text s) = []"
| "anchors (Comment s) = []"
| "anchors (Element tag attrs kids) =
     (if tag = ''a'' then [(attrs, kids)] else []) @ concat (map anchors kids)"

definition linksOfBody :: "node list \<Rightarrow> link list" where
  "linksOfBody body =
     map (\<lambda>(attrs, kids). \<lparr>link_text = orEmpty (Some (textContent kids)),
                            link_href = orEmpty (getAttribute attrs ''href'')\<rparr>)
         (concat (map anchors body))"

definition extractLinks :: "(string \<Rightarrow> node list) \<Rightarrow> string option \<Rightarrow> link list" where
  "extractLinks parseBody html =
     (case html of
        None \<Rightarrow> []
      | Some h \<Rightarrow> if h = [] then [] else linksOfBody (parseBody h))"

section \<open>The runtime the program runs on\<close>

text \<open>
  What the program takes from its libraries and its host, as parameters: the HTML
  parser (the child nodes of \<^verbatim>\<open>document.body\<close>), the local time zone of the
  \<^verbatim>\<open>Date\<close> object (\<open>LocalTime\<close> and \<open>UTC\<close> of ECMAScript, between time values
  in milliseconds), \<^verbatim>\<open>new Date(string)\<close> (\<open>None\<close> is the invalid date, whose time
  value is NaN), and the renderings of a time value and of a query string.
\<close>

record runtime =
  parseBody :: "string \<Rightarrow> node list"
  LocalTime :: "int \<Rightarrow> int"
  UTC :: "int \<Rightarrow> int"
  DateParse :: "string \<Rightarrow> int option"
  toISOString :: "int \<Rightarrow> string"
  toLocaleDateString :: "int \<Rightarrow> string"
  toLocaleStringFull :: "int \<Rightarrow> string"
  toLocaleStringDefault :: "int option \<Rightarrow> string"
  urlEncode :: "(string \<times> string) list \<Rightarrow> string"

section \<open>Date utilities\<close>

text \<open>Time values of ECMAScript: milliseconds since the epoch, day numbers, and \<open>TimeClip\<close>.\<close>

definition msPerDay :: int where
  "msPerDay = 86400000"

definition Day :: "int \<Rightarrow> int" where
  "Day t = t div msPerDay"

definition MakeTime :: "int \<Rightarrow> int \<Rightarrow> int \<Rightarrow> int \<Rightarrow> int" where
  "MakeTime h m s ms = h * 3600000 + m * 60000 + s * 1000 + ms"

definition MakeDate :: "int \<Rightarrow> int \<Rightarrow> int" where
  "MakeDate day time = day * msPerDay + time"

definition TimeClip :: "int \<Rightarrow> int option" where
  "TimeClip t = (if \<bar>t\<bar> > 8640000000000000 then None else Some t)"

definition DayFromYear :: "int \<Rightarrow> int" where
  "DayFromYear y =
     365 * (y - 1970) + (y - 1969) div 4 - (y - 1901) div 100 + (y - 1601) div 400"

definition InLeapYear :: "int \<Rightarrow> bool" where
  "InLeapYear y = (y mod 4 = 0 \<and> (y mod 100 \<noteq> 0 \<or> y mod 400 = 0))"

definition daysBeforeMonth :: "bool \<Rightarrow> nat \<Rightarrow> int" where
  "daysBeforeMonth leap mn =
     [0, 31, 59, 90, 120, 151, 181, 212, 243, 273, 304, 334] ! mn
       + (if leap \<and> 2 \<le> mn then 1 else 0)"

text \<open>
  \<open>MakeDay\<close>: months beyond \<open>0..11\<close> carry into the year, and the day of the month
  is added as a plain offset, so day 30 of February is a day of March.
\<close>

definition MakeDay :: "int \<Rightarrow> int \<Rightarrow> int \<Rightarrow> int" where
  "MakeDay year month date =
     (let ym = year + month div 12; mn = nat (month mod 12)
      in DayFromYear ym + daysBeforeMonth (InLeapYear ym) mn + date - 1)"

text \<open>
  \<^verbatim>\<open>new Date(year, month, day)\<close>: local midnight of that day; years \<open>0..99\<close> mean
  \<open>1900..1999\<close>.
\<close>

definition newDate :: "runtime \<Rightarrow> int \<Rightarrow> int \<Rightarrow> int \<Rightarrow> int option" where
  "newDate rt year month day =
     (let yr = (if 0 \<le> year \<and> year \<le> 99 then 1900 + year else year)
      in TimeClip (UTC rt (MakeDate (MakeDay yr month day) (MakeTime 0 0 0 0))))"

text \<open>\<^verbatim>\<open>date.setHours(h, m, s, ms)\<close>, returning the new time value (\<open>None\<close> is NaN).\<close>

definition setHours :: "runtime \<Rightarrow> int \<Rightarrow> int \<Rightarrow> int \<Rightarrow> int \<Rightarrow> int \<Rightarrow> int option" where
  "setHours rt t h m s ms =
     TimeClip (UTC rt (MakeDate (Day (LocalTime rt t)) (MakeTime h m s ms)))"

text \<open>
  \<^verbatim>\<open>Number\<close> on a string of decimal digits, the only strings the pattern test of
  \<^verbatim>\<open>parseDate\<close> lets through to it.
\<close>

definition Number :: "string \<Rightarrow> int" where
  "Number s = foldl (\<lambda>n c. 10 * n + (int (of_char c) - 48)) 0 s"

text \<open>\<^verbatim>\<open>dateStr.match(/^\d{4}-\d{2}-\d{2}$/)\<close>\<close>

definition matchesBareDate :: "string \<Rightarrow> bool" where
  "matchesBareDate s =
     (length s = 10
      \<and> list_all isDigit (take 4 s) \<and> s ! 4 = CHR ''-''
      \<and> list_all isDigit (take 2 (drop 5 s)) \<and> s ! 7 = CHR ''-''
      \<and> list_all isDigit (drop 8 s))"

definition parseDate :: "runtime \<Rightarrow> string option \<Rightarrow> int option" where
  "parseDate rt dateStr =
     (case dateStr of
        None \<Rightarrow> None
      | Some s \<Rightarrow>
          if s = [] then None
          else if matchesBareDate s then
            (case map Number (splitChar (CHR ''-'') s) of
               [year, month, day] \<Rightarrow> newDate rt year (month - 1) day
             | _ \<Rightarrow> None)
          else DateParse rt s)"

text \<open>Comparisons of a time value with one that may be NaN: false on NaN.\<close>

definition gtTime :: "int \<Rightarrow> int option \<Rightarrow> bool" where
  "gtTime a b = (case b of None \<Rightarrow> False | Some t \<Rightarrow> a > t)"

definition ltTime :: "int \<Rightarrow> int option \<Rightarrow> bool" where
  "ltTime a b = (case b of None \<Rightarrow> False | Some t \<Rightarrow> a < t)"

definition isDateInRange :: "runtime \<Rightarrow> string option \<Rightarrow> string option \<Rightarrow> string option \<Rightarrow> bool" where
  "isDateInRange rt date before after =
     (if \<not> truthy date then True
      else case parseDate rt date of
        None \<Rightarrow> True
      | Some dueDate \<Rightarrow>
          if truthy before
             \<and> (case parseDate rt before of
                  None \<Rightarrow> False
                | Some beforeDate \<Rightarrow> gtTime dueDate (setHours rt beforeDate 23 59 59 999))
          then False
          else if truthy after
             \<and> (case parseDate rt after of
                  None \<Rightarrow> False
                | Some afterDate \<Rightarrow> ltTime dueDate (setHours rt afterDate 0 0 0 0))
          then False
          else True)"

datatype dateFormat = Full | DateOnly

definition formatDate :: "runtime \<Rightarrow> string option \<Rightarrow> dateFormat \<Rightarrow> string" where
  "formatDate rt dateStr format =
     (if \<not> truthy dateStr then ''No date set''
      else case DateParse rt (orEmpty dateStr) of
        None \<Rightarrow> ''Invalid date''
      | Some t \<Rightarrow>
          if format = DateOnly then toLocaleDateString rt t else toLocaleStringFull rt t)"

section \<open>Canvas records\<close>

text \<open>
  The interfaces of \<^verbatim>\<open>index.ts\<close>.  The fields \<^verbatim>\<open>id\<close> and \<^verbatim>\<open>name\<close> carry the
  record's name as a prefix; numbers are integers (identifiers, counts, whole points).
\<close>

record CanvasCourse =
  course_id :: int
  course_name :: string
  course_term :: "string option"

record DashboardCard =
  card_id :: int
  shortName :: string
  card_term :: "string option"

record ExternalTool =
  url :: string
  new_tab :: bool

record RubricCriterion =
  criterion_id :: string
  points :: int
  criterion_description :: string
  long_description :: "string option"

record CanvasAssignment =
  assignment_id :: int
  assignment_name :: string
  description :: "string option"
  due_at :: "string option"
  points_possible :: int
  submission_types :: "string list"
  allowed_extensions :: "string list option"
  allowed_attempts :: "int option"
  grading_type :: string
  lock_at :: "string option"
  unlock_at :: "string option"
  has_group_assignment :: bool
  group_category_id :: "int option"
  peer_reviews :: bool
  word_count :: "int option"
  external_tool_tag_attributes :: "ExternalTool option"
  rubric :: "RubricCriterion list option"
  use_rubric_for_grading :: bool
  published :: bool
  only_visible_to_overrides :: bool
  locked_for_user :: bool
  lock_explanation :: "string option"
  turnitin_enabled :: bool
  vericite_enabled :: bool
  submission_draft_status :: "string option"
  annotatable_attachment_id :: "int option"
  anonymize_students :: bool
  require_lockdown_browser :: bool

record AssignmentWithCourse = CanvasAssignment +
  courseName :: string
  courseId :: int

text \<open>\<^verbatim>\<open>{...assignment, courseName: course.name, courseId: course.id}\<close>\<close>

definition withCourse :: "CanvasCourse \<Rightarrow> CanvasAssignment \<Rightarrow> AssignmentWithCourse" where
  "withCourse course a =
     CanvasAssignment.extend a (AssignmentWithCourse.fields (course_name course) (course_id course))"

section \<open>Remote resource client\<close>

text \<open>
  A thrown \<^verbatim>\<open>Error\<close> is a value; \<open>Inl\<close> of a sum is a throw.  The network is a
  function from the URL to the response, or to the error \<^verbatim>\<open>fetch\<close> throws;
  \<^verbatim>\<open>response.json()\<close> yields the typed value or throws on a malformed body.
\<close>

datatype exn = Error string

fun message :: "exn \<Rightarrow> string" where
  "message (Error m) = m"

record 'a Response =
  ok :: bool
  status :: int
  responseText :: string
  json :: "exn + 'a"

record config =
  canvasApiToken :: "string option"
  canvasDomain :: "string option"

definition getBaseUrl :: "config \<Rightarrow> exn + string" where
  "getBaseUrl cfg =
     (if \<not> truthy (canvasDomain cfg)
      then Inl (Error ''Canvas domain not set. Please check CANVAS_DOMAIN environment variable.'')
      else Inr (''https://'' @ orEmpty (canvasDomain cfg) @ ''/api/v1''))"

definition canvasApiRequest :: "config \<Rightarrow> (string \<Rightarrow> exn + 'a Response) \<Rightarrow> string \<Rightarrow> exn + 'a" where
  "canvasApiRequest cfg fetch path =
     (if \<not> truthy (canvasApiToken cfg)
      then Inl (Error ''Canvas API token not set. Please check CANVAS_API_TOKEN environment variable.'')
      else case getBaseUrl cfg of
        Inl e \<Rightarrow> Inl e
      | Inr base \<Rightarrow>
          (case fetch (base @ path) of
             Inl e \<Rightarrow> Inl e
           | Inr response \<Rightarrow>
               if \<not> ok response
               then Inl (Error (''Canvas API error: '' @ showInt (status response) @ '' - ''
                                @ responseText response))
               else json response))"

text \<open>The remote system, one \<^verbatim>\<open>fetch\<close> for each response type the program asks for.\<close>

record canvas =
  fetchCourses :: "string \<Rightarrow> exn + CanvasCourse list Response"
  fetchCourse :: "string \<Rightarrow> exn + CanvasCourse Response"
  fetchAssignments :: "string \<Rightarrow> exn + CanvasAssignment list Response"
  fetchAssignment :: "string \<Rightarrow> exn + CanvasAssignment Response"
  fetchDashboardCards :: "string \<Rightarrow> exn + DashboardCard list Response"

section \<open>Tool results\<close>

text \<open>
  \<^verbatim>\<open>{content: [{type: "text", text}], isError?}\<close>; an absent \<^verbatim>\<open>isError\<close> is
  \<open>False\<close>.  A handler either returns its result or throws.
\<close>

record ToolResult =
  resultText :: string
  isError :: bool

datatype 'a outcome = Returned 'a | Thrown exn

definition textResult :: "string \<Rightarrow> ToolResult" where
  "textResult s = \<lparr>resultText = s, isError = False\<rparr>"

definition errorResult :: "string \<Rightarrow> ToolResult" where
  "errorResult s = \<lparr>resultText = s, isError = True\<rparr>"

text \<open>
  \<^verbatim>\<open>courseId\<close> and \<^verbatim>\<open>assignmentId\<close> arguments are strings or numbers; in a
  template literal a number prints in decimal.
\<close>

datatype idArg = IdString string | IdNumber int

fun showId :: "idArg \<Rightarrow> string" where
  "showId (IdString s) = s"
| "showId (IdNumber n) = showInt n"

fun truthyId :: "idArg option \<Rightarrow> bool" where
  "truthyId None = False"
| "truthyId (Some (IdString s)) = (s \<noteq> [])"
| "truthyId (Some (IdNumber n)) = (n \<noteq> 0)"

section \<open>Course lists\<close>





section \<open>Assignment search\<close>

text \<open>\<^verbatim>\<open>query?.trim() || ""\<close> and the wildcard test.\<close>

definition normalizeQuery :: "string option \<Rightarrow> string" where
  "normalizeQuery query = (case query of None \<Rightarrow> [] | Some q \<Rightarrow> if trim q = [] then [] else trim q)"

definition isWildcardQuery :: "string \<Rightarrow> bool" where
  "isWildcardQuery normalizedQuery = (normalizedQuery = [] \<or> normalizedQuery = ''*'')"

text \<open>The callback of \<^verbatim>\<open>assignments.filter\<close> for a query that is not the wildcard.\<close>

definition matchesQuery :: "runtime \<Rightarrow> string \<Rightarrow> 'a CanvasAssignment_scheme \<Rightarrow> bool" where
  "matchesQuery rt normalizedQuery assignment =
     (let searchTerms = filter (\<lambda>term. length term > 0)
                          (splitWhiteSpace (toLowerCase normalizedQuery));
          titleMatch = list_ex (\<lambda>term. includesStr (toLowerCase (assignment_name assignment)) term)
                         searchTerms;
          descriptionMatch =
            (if truthy (description assignment)
             then list_ex (\<lambda>term. includesStr
                                     (toLowerCase (htmlToPlainText (parseBody rt) (description assignment)))
                                     term)
                    searchTerms
             else False)
      in titleMatch \<or> descriptionMatch)"

text \<open>
  The \<^verbatim>\<open>URLSearchParams\<close> of one course's request, in the order they are appended.
  \<^verbatim>\<open>toISOString\<close> throws a \<^verbatim>\<open>RangeError\<close> on a date whose time value is NaN.
\<close>

definition bucketParam :: "string option \<Rightarrow> string option \<Rightarrow> (string \<times> string) list" where
  "bucketParam dueBefore dueAfter =
     (if truthy dueAfter \<and> \<not> truthy dueBefore then [(''bucket'', ''future'')]
      else if truthy dueBefore \<and> \<not> truthy dueAfter then [(''bucket'', ''past'')]
      else [])"

definition boundParam ::
  "runtime \<Rightarrow> string \<Rightarrow> string option \<Rightarrow> int \<Rightarrow> int \<Rightarrow> int \<Rightarrow> int \<Rightarrow> exn + (string \<times> string) list" where
  "boundParam rt key bound h m s ms =
     (if truthy bound
      then (case parseDate rt bound of
              None \<Rightarrow> Inr []
            | Some d \<Rightarrow>
                (case setHours rt d h m s ms of
                   None \<Rightarrow> Inl (Error ''Invalid time value'')
                 | Some t \<Rightarrow> Inr [(key, toISOString rt t)]))
      else Inr [])"

text \<open>
  \<^verbatim>\<open>matchingAssignments\<close> and \<^verbatim>\<open>dateFilteredAssignments\<close> of the loop body.
\<close>

definition matchingAssignments :: "runtime \<Rightarrow> string \<Rightarrow> CanvasAssignment list \<Rightarrow> CanvasAssignment list" where
  "matchingAssignments rt normalizedQuery assignments =
     (if isWildcardQuery normalizedQuery then assignments
      else filter (matchesQuery rt normalizedQuery) assignments)"

definition dateFilteredAssignments ::
  "runtime \<Rightarrow> string option \<Rightarrow> string option \<Rightarrow> (string \<times> string) list
     \<Rightarrow> CanvasAssignment list \<Rightarrow> CanvasAssignment list" where
  "dateFilteredAssignments rt dueBefore dueAfter params matching =
     filter (\<lambda>assignment.
               if (truthy dueAfter \<and> \<not> truthy dueBefore \<and> ''bucket'' \<in> set (map fst params))
                  \<or> (truthy dueBefore \<and> \<not> truthy dueAfter \<and> ''bucket'' \<in> set (map fst params))
               then True
               else isDateInRange rt (due_at assignment) dueBefore dueAfter)
            matching"

text \<open>
  The body of the \<^verbatim>\<open>try\<close> block of the loop over the courses: the lines it writes
  to the diagnostic log, and either the tagged assignments it adds to
  \<^verbatim>\<open>allResults\<close> or the error it throws.
\<close>

definition searchCourse ::
  "runtime \<Rightarrow> config \<Rightarrow> canvas \<Rightarrow> string \<Rightarrow> string option \<Rightarrow> string option \<Rightarrow> CanvasCourse
     \<Rightarrow> string list \<times> (exn + AssignmentWithCourse list)" where
  "searchCourse rt cfg cv normalizedQuery dueBefore dueAfter course =
     (case boundParam rt ''due_after'' dueAfter 0 0 0 0 of
        Inl e \<Rightarrow> ([], Inl e)
      | Inr afterParam \<Rightarrow>
     (case boundParam rt ''due_before'' dueBefore 23 59 59 999 of
        Inl e \<Rightarrow> ([], Inl e)
      | Inr beforeParam \<Rightarrow>
          let params = bucketParam dueBefore dueAfter @ afterParam @ beforeParam;
              assignmentsUrl =
                ''/courses/'' @ showInt (course_id course)
                @ ''/assignments?per_page=100&order_by=due_at&include[]=submission''
                @ (if urlEncode rt params \<noteq> [] then ''&'' @ urlEncode rt params else []);
              fetching = ''Fetching assignments from URL: '' @ assignmentsUrl
          in case canvasApiRequest cfg (fetchAssignments cv) assignmentsUrl of
               Inl e \<Rightarrow> ([fetching], Inl e)
             | Inr assignments \<Rightarrow>
                 let found = ''Found '' @ showInt (int (length assignments))
                             @ '' assignments in course '' @ showInt (course_id course)
                 in ([fetching, found],
                     Inr (map (withCourse course)
                            (dateFilteredAssignments rt dueBefore dueAfter params
                               (matchingAssignments rt normalizedQuery assignments))))))"

text \<open>
  The loop over the courses, on the state it changes: \<^verbatim>\<open>allResults\<close> and the
  diagnostic log (\<^verbatim>\<open>console.error\<close>).  The \<^verbatim>\<open>catch\<close> logs and goes on.
\<close>

definition courseFailureLine :: "CanvasCourse \<Rightarrow> exn \<Rightarrow> string" where
  "courseFailureLine course error =
     ''Error searching in course '' @ showInt (course_id course) @ '': '' @ message error"

fun searchCourses ::
  "runtime \<Rightarrow> config \<Rightarrow> canvas \<Rightarrow> string \<Rightarrow> string option \<Rightarrow> string option \<Rightarrow> CanvasCourse list
     \<Rightarrow> AssignmentWithCourse list \<times> string list \<Rightarrow> AssignmentWithCourse list \<times> string list" where
  "searchCourses rt cfg cv normalizedQuery dueBefore dueAfter [] state = state"
| "searchCourses rt cfg cv normalizedQuery dueBefore dueAfter (course # courses) (allResults, log) =
     (case searchCourse rt cfg cv normalizedQuery dueBefore dueAfter course of
        (lines, Inr found) \<Rightarrow>
          searchCourses rt cfg cv normalizedQuery dueBefore dueAfter courses
            (allResults @ found, log @ lines)
      | (lines, Inl error) \<Rightarrow>
          searchCourses rt cfg cv normalizedQuery dueBefore dueAfter courses
            (allResults, log @ lines @ [courseFailureLine course error]))"

text \<open>
  \<^verbatim>\<open>Array.prototype.sort\<close> with a comparator is a stable sort; it is modelled as the
  stable insertion sort, which agrees with every stable sort whenever the comparator
  is a consistent ordering.
\<close>

fun insertBy :: "('a \<Rightarrow> 'a \<Rightarrow> int) \<Rightarrow> 'a \<Rightarrow> 'a list \<Rightarrow> 'a list" where
  "insertBy cmp x [] = [x]"
| "insertBy cmp x (y # ys) = (if cmp x y \<le> 0 then x # y # ys else y # insertBy cmp x ys)"

definition sortBy :: "('a \<Rightarrow> 'a \<Rightarrow> int) \<Rightarrow> 'a list \<Rightarrow> 'a list" where
  "sortBy cmp xs = foldr (insertBy cmp) xs []"

text \<open>The comparator of the final sort.\<close>

definition compareDue :: "runtime \<Rightarrow> 'a CanvasAssignment_scheme \<Rightarrow> 'a CanvasAssignment_scheme \<Rightarrow> int" where
  "compareDue rt a b =
     (if \<not> truthy (due_at a) \<and> \<not> truthy (due_at b) then 0
      else if \<not> truthy (due_at a) then 1
      else if \<not> truthy (due_at b) then - 1
      else case (parseDate rt (due_at a), parseDate rt (due_at b)) of
             (Some dateA, Some dateB) \<Rightarrow> dateA - dateB
           | _ \<Rightarrow> 0)"

definition dateRangeText :: "string option \<Rightarrow> string option \<Rightarrow> string" where
  "dateRangeText dueBefore dueAfter =
     (let dateRange = (if truthy dueAfter then [''after '' @ orEmpty dueAfter] else [])
                      @ (if truthy dueBefore then [''before '' @ orEmpty dueBefore] else [])
      in if length dateRange > 0 then '' due '' @ join '' and '' dateRange else [])"

definition queryText :: "string \<Rightarrow> string" where
  "queryText normalizedQuery =
     (if \<not> isWildcardQuery normalizedQuery
      then '' matching '' @ [DQ] @ normalizedQuery @ [DQ] else [])"

definition resultEntry :: "runtime \<Rightarrow> AssignmentWithCourse \<Rightarrow> string" where
  "resultEntry rt assignment =
     (let dueDate = formatDate rt (due_at assignment) Full;
          status = (if published assignment then [] else '' (Unpublished)'')
      in join [NL]
           [''- Course: '' @ courseName assignment @ '' (ID: '' @ showInt (courseId assignment) @ '')'',
            ''  Assignment: '' @ assignment_name assignment @ status
              @ '' (ID: '' @ showInt (assignment_id assignment) @ '')'',
            ''  Due: '' @ dueDate])"

text \<open>The candidate courses: the one course asked for, or the courses of the enrollment state.\<close>

definition resolveCourses :: "config \<Rightarrow> canvas \<Rightarrow> bool \<Rightarrow> idArg option \<Rightarrow> exn + CanvasCourse list" where
  "resolveCourses cfg cv includeCompleted courseIdArg =
     (if truthyId courseIdArg
      then (case canvasApiRequest cfg (fetchCourse cv)
                   (''/courses/'' @ (case courseIdArg of None \<Rightarrow> [] | Some c \<Rightarrow> showId c)) of
              Inl e \<Rightarrow> Inl e
            | Inr course \<Rightarrow> Inr [course])
      else canvasApiRequest cfg (fetchCourses cv)
             (''/courses?enrollment_state='' @ (if includeCompleted then ''all'' else ''active'')))"

text \<open>The handler: its outcome and the diagnostic log it leaves.\<close>

definition search_assignments ::
  "runtime \<Rightarrow> config \<Rightarrow> canvas \<Rightarrow> string option \<Rightarrow> string option \<Rightarrow> string option \<Rightarrow> bool
     \<Rightarrow> idArg option \<Rightarrow> ToolResult outcome \<times> string list" where
  "search_assignments rt cfg cv query dueBefore dueAfter includeCompleted courseIdArg =
     (let normalizedQuery = normalizeQuery query
      in case resolveCourses cfg cv includeCompleted courseIdArg of
           Inl error \<Rightarrow> (Returned (errorResult (''Search failed: '' @ message error)), [])
         | Inr courses \<Rightarrow>
             if length courses = 0 then (Returned (textResult ''No courses found.''), [])
             else
               let (collected, log) =
                     searchCourses rt cfg cv normalizedQuery dueBefore dueAfter courses ([], []);
                   allResults = sortBy (compareDue rt) collected
               in if length allResults = 0
                  then (Returned (textResult (''No assignments found'' @ queryText normalizedQuery
                                              @ dateRangeText dueBefore dueAfter @ ''.'')), log)
                  else (Returned (textResult
                          (''Found '' @ showInt (int (length allResults)) @ '' assignments''
                           @ queryText normalizedQuery @ dateRangeText dueBefore dueAfter @ '':''
                           @ [NL, NL] @ join [NL, NL] (map (resultEntry rt) allResults))), log))"

section \<open>Assignment details\<close>

datatype formatType = full | plain | markdown

text \<open>JavaScript truthiness of a number that may be null or undefined.\<close>

definition truthyNumber :: "int option \<Rightarrow> bool" where
  "truthyNumber x = (case x of None \<Rightarrow> False | Some n \<Rightarrow> n \<noteq> 0)"

text \<open>\<^verbatim>\<open>assignment.submission_types?.join(', ') || 'Not specified'\<close>\<close>

definition submissionTypesText :: "string list \<Rightarrow> string" where
  "submissionTypesText types =
     (if join '', '' types = [] then ''Not specified'' else join '', '' types)"

definition descriptionText :: "runtime \<Rightarrow> formatType \<Rightarrow> string option \<Rightarrow> string" where
  "descriptionText rt format desc =
     (case format of
        full \<Rightarrow> (if truthy desc then orEmpty desc else ''No description available'')
      | plain \<Rightarrow> (if htmlToPlainText (parseBody rt) desc = [] then ''No description available''
                  else htmlToPlainText (parseBody rt) desc)
      | markdown \<Rightarrow> (if truthy desc then convertHtmlToMarkdown (parseBody rt) (orEmpty desc)
                     else ''No description available''))"

text \<open>
  The report is the array \<^verbatim>\<open>details\<close>, joined by line feeds.  Each conditional
  \<^verbatim>\<open>push\<close> of the handler is one definition below: the lines it adds.
\<close>

definition headerLines :: "runtime \<Rightarrow> idArg \<Rightarrow> CanvasAssignment \<Rightarrow> string list" where
  "headerLines rt courseIdArg assignment =
     [''# '' @ assignment_name assignment,
      [],
      ''**Course ID:** '' @ showId courseIdArg,
      ''**Assignment ID:** '' @ showInt (assignment_id assignment),
      ''**Due Date:** '' @ formatDate rt (due_at assignment) Full,
      ''**Points Possible:** '' @ showInt (points_possible assignment),
      ''**Status:** '' @ (if published assignment then ''Published'' else ''Unpublished'')
        @ (if only_visible_to_overrides assignment
           then '' (Only visible to specific students)'' else []),
      [],
      ''## Submission Requirements'',
      ''- **Submission Type:** '' @ submissionTypesText (submission_types assignment)]"

definition fileTypeLines :: "CanvasAssignment \<Rightarrow> string list" where
  "fileTypeLines assignment =
     (if ''online_upload'' \<in> set (submission_types assignment)
         \<and> (case allowed_extensions assignment of None \<Rightarrow> False | Some exts \<Rightarrow> length exts \<noteq> 0)
      then [''- **Allowed File Types:** ''
            @ join '', '' (map (\<lambda>ext. ''`.'' @ ext @ ''`'')
                             (case allowed_extensions assignment of None \<Rightarrow> [] | Some exts \<Rightarrow> exts))]
      else [])"

definition attemptLines :: "CanvasAssignment \<Rightarrow> string list" where
  "attemptLines assignment =
     (if allowed_attempts assignment \<noteq> None \<and> allowed_attempts assignment \<noteq> Some (- 1)
      then [''- **Allowed Attempts:** ''
            @ (case allowed_attempts assignment of None \<Rightarrow> [] | Some n \<Rightarrow> showInt n)]
      else [])"

definition gradingTypeLines :: "CanvasAssignment \<Rightarrow> string list" where
  "gradingTypeLines assignment =
     [''- **Grading Type:** ''
      @ toLowerCase (map (\<lambda>c. if c = CHR ''_'' then CHR '' '' else c) (grading_type assignment))]"

definition timeRestrictionLines :: "runtime \<Rightarrow> CanvasAssignment \<Rightarrow> string list" where
  "timeRestrictionLines rt assignment =
     (if truthy (unlock_at assignment) \<or> truthy (lock_at assignment)
      then [''- **Time Restrictions:**'']
           @ (if truthy (unlock_at assignment)
              then [''  - Available from: '' @ formatDate rt (unlock_at assignment) Full] else [])
           @ (if truthy (lock_at assignment)
              then [''  - Locks at: '' @ formatDate rt (lock_at assignment) Full] else [])
      else [])"

definition groupLines :: "CanvasAssignment \<Rightarrow> string list" where
  "groupLines assignment =
     (if has_group_assignment assignment then [''- **Group Assignment:** Yes''] else [])"

definition peerReviewLines :: "CanvasAssignment \<Rightarrow> string list" where
  "peerReviewLines assignment =
     (if peer_reviews assignment then [''- **Peer Reviews Required:** Yes''] else [])"

definition wordCountLines :: "CanvasAssignment \<Rightarrow> string list" where
  "wordCountLines assignment =
     (if truthyNumber (word_count assignment)
      then [''- **Required Word Count:** ''
            @ (case word_count assignment of None \<Rightarrow> [] | Some n \<Rightarrow> showInt n)]
      else [])"

definition externalToolLines :: "CanvasAssignment \<Rightarrow> string list" where
  "externalToolLines assignment =
     (case external_tool_tag_attributes assignment of
        None \<Rightarrow> []
      | Some tool \<Rightarrow>
          if url tool \<noteq> []
          then [''- **External Tool Required:** Yes'', ''  - Tool URL: '' @ url tool]
               @ (if new_tab tool then [''  - Opens in new tab: Yes''] else [])
          else [])"

definition plagiarismLines :: "CanvasAssignment \<Rightarrow> string list" where
  "plagiarismLines assignment =
     (if turnitin_enabled assignment \<or> vericite_enabled assignment
      then [''- **Plagiarism Detection:**'']
           @ (if turnitin_enabled assignment then [''  - Turnitin enabled''] else [])
           @ (if vericite_enabled assignment then [''  - VeriCite enabled''] else [])
      else [])"

definition criterionLines :: "RubricCriterion \<Rightarrow> string list" where
  "criterionLines criterion =
     [''### '' @ criterion_description criterion @ '' ('' @ showInt (points criterion)
      @ '' points)'']
     @ (if truthy (long_description criterion) then [orEmpty (long_description criterion)] else [])
     @ [[]]"

definition rubricLines :: "CanvasAssignment \<Rightarrow> string list" where
  "rubricLines assignment =
     (case rubric assignment of
        None \<Rightarrow> []
      | Some criteria \<Rightarrow>
          if length criteria > 0
          then [[], ''## Rubric'']
               @ (if use_rubric_for_grading assignment
                  then [''*This rubric is used for grading*'', []] else [])
               @ concat (map criterionLines criteria)
          else [])"

definition specialReqs :: "CanvasAssignment \<Rightarrow> string list" where
  "specialReqs assignment =
     (if anonymize_students assignment then [''Anonymous Grading Enabled''] else [])
     @ (if require_lockdown_browser assignment then [''Lockdown Browser Required''] else [])
     @ (if truthyNumber (annotatable_attachment_id assignment) then [''Annotation Required''] else [])"

definition specialRequirementLines :: "CanvasAssignment \<Rightarrow> string list" where
  "specialRequirementLines assignment =
     (if length (specialReqs assignment) > 0
      then [[], ''## Special Requirements'', []] @ map (\<lambda>req. ''- '' @ req) (specialReqs assignment)
      else [])"

definition lockLines :: "CanvasAssignment \<Rightarrow> string list" where
  "lockLines assignment =
     (if locked_for_user assignment
      then [[], ''## Access Restrictions'', [],
            (if truthy (lock_explanation assignment) then orEmpty (lock_explanation assignment)
             else ''This assignment is currently locked.'')]
      else [])"

definition linkLines :: "link list \<Rightarrow> string list" where
  "linkLines links =
     (if length links > 0
      then [[], ''## Required Materials and Links'', []]
           @ map (\<lambda>l. ''- ['' @ link_text l @ '']('' @ link_href l @ '')'') links
      else [])"

definition assignmentDetails :: "runtime \<Rightarrow> idArg \<Rightarrow> formatType \<Rightarrow> CanvasAssignment \<Rightarrow> string list" where
  "assignmentDetails rt courseIdArg format assignment =
     (let links = (if truthy (description assignment)
                   then extractLinks (parseBody rt) (description assignment) else []);
          descr = descriptionText rt format (description assignment)
      in headerLines rt courseIdArg assignment
         @ fileTypeLines assignment
         @ attemptLines assignment
         @ gradingTypeLines assignment
         @ timeRestrictionLines rt assignment
         @ groupLines assignment
         @ peerReviewLines assignment
         @ wordCountLines assignment
         @ externalToolLines assignment
         @ plagiarismLines assignment
         @ rubricLines assignment
         @ specialRequirementLines assignment
         @ lockLines assignment
         @ [[], ''## Description'', [], descr]
         @ linkLines links)"

definition get_assignment ::
  "runtime \<Rightarrow> config \<Rightarrow> canvas \<Rightarrow> idArg \<Rightarrow> idArg \<Rightarrow> formatType \<Rightarrow> ToolResult outcome" where
  "get_assignment rt cfg cv courseIdArg assignmentIdArg format =
     (case canvasApiRequest cfg (fetchAssignment cv)
             (''/courses/'' @ showId courseIdArg @ ''/assignments/'' @ showId assignmentIdArg) of
        Inl error \<Rightarrow>
          Returned (errorResult (''Failed to fetch assignment details: '' @ message error))
      | Inr assignment \<Rightarrow>
          Returned (textResult (join [NL] (assignmentDetails rt courseIdArg format assignment))))"

section \<open>The assignment content resource\<close>



section \<open>Example environments\<close>

text \<open>
  Concrete environments for the examples below: a zone at a fixed offset from UTC
  (in milliseconds, local minus UTC), a \<^verbatim>\<open>Date\<close> parser that knows the listed
  timestamps only, and an HTML parser for sources without markup.
\<close>

text \<open>
  The body the HTML parser builds for a source that has neither markup nor character
  references (no \<^verbatim>\<open><\<close>, no \<^verbatim>\<open>&\<close>, no carriage return): the white space
  in front of the first other character is dropped before the body starts, and the
  rest is one text node.  A source of white space only has an empty body.
\<close>

definition isHtmlSpace :: "char \<Rightarrow> bool" where
  "isHtmlSpace c = ((of_char c :: nat) \<in> {9, 10, 12, 13, 32})"

definition plainTextBody :: "string \<Rightarrow> node list" where
  "plainTextBody h =
     (if dropWhile isHtmlSpace h = [] then [] else [Text (dropWhile isHtmlSpace h)])"

definition zoneRuntime :: "int \<Rightarrow> (string \<times> int) list \<Rightarrow> runtime" where
  "zoneRuntime offset known =
     \<lparr>parseBody = plainTextBody,
      LocalTime = (\<lambda>t. t + offset),
      UTC = (\<lambda>t. t - offset),
      DateParse = map_of known,
      toISOString = showInt,
      toLocaleDateString = showInt,
      toLocaleStringFull = showInt,
      toLocaleStringDefault = (\<lambda>t. case t of None \<Rightarrow> ''Invalid Date'' | Some v \<Rightarrow> showInt v),
      urlEncode = (\<lambda>params. join ''&'' (map (\<lambda>(k, v). k @ ''='' @ v) params))\<rparr>"

definition exampleConfig :: config where
  "exampleConfig = \<lparr>canvasApiToken = Some ''token'', canvasDomain = Some ''canvas.test''\<rparr>"

definition exampleAssignment :: "int \<Rightarrow> string \<Rightarrow> string option \<Rightarrow> CanvasAssignment" where
  "exampleAssignment i title due =
     \<lparr>assignment_id = i, assignment_name = title, description = None, due_at = due,
      points_possible = 10, submission_types = [''online_upload''], allowed_extensions = None,
      allowed_attempts = None, grading_type = ''points'', lock_at = None, unlock_at = None,
      has_group_assignment = False, group_category_id = None, peer_reviews = False,
      word_count = None, external_tool_tag_attributes = None, rubric = None,
      use_rubric_for_grading = False, published = True, only_visible_to_overrides = False,
      locked_for_user = False, lock_explanation = None, turnitin_enabled = False,
      vericite_enabled = False, submission_draft_status = None,
      annotatable_attachment_id = None, anonymize_students = False,
      require_lockdown_browser = False\<rparr>"

definition okResponse :: "'a \<Rightarrow> exn + 'a Response" where
  "okResponse v = Inr \<lparr>ok = True, status = 200, responseText = [], json = Inr v\<rparr>"

text \<open>
  A remote system with the courses 1 and 2: course 1 has two assignments, and the
  request for the assignments of course 2 is answered with status 500.
\<close>

definition exampleCanvas :: canvas where
  "exampleCanvas =
     \<lparr>fetchCourses = (\<lambda>u. okResponse
                        [\<lparr>course_id = 1, course_name = ''Algebra'', course_term = None\<rparr>,
                         \<lparr>course_id = 2, course_name = ''Biology'', course_term = None\<rparr>]),
      fetchCourse = (\<lambda>u. okResponse \<lparr>course_id = 1, course_name = ''Algebra'', course_term = None\<rparr>),
      fetchAssignments =
        (\<lambda>u. if startsWith u ''https://canvas.test/api/v1/courses/1/''
             then okResponse [exampleAssignment 11 ''Essay'' (Some ''2024-03-01''),
                              exampleAssignment 12 ''Essay'' None]
             else Inr \<lparr>ok = False, status = 500, responseText = ''down'', json = Inl (Error ''no body'')\<rparr>),
      fetchAssignment = (\<lambda>u. Inl (Error ''network unreachable'')),
      fetchDashboardCards = (\<lambda>u. okResponse [])\<rparr>"

definition exampleResult :: "int \<Rightarrow> string option \<Rightarrow> AssignmentWithCourse" where
  "exampleResult i due =
     withCourse \<lparr>course_id = 1, course_name = ''Algebra'', course_term = None\<rparr>
       (exampleAssignment i ''Essay'' due)"

section \<open>The order of the search results, as specified\<close>

text \<open>
  The key of the final sort is the parsed due date; \<open>dueNotAfter\<close> is the order
  "ascending by due date, no due date last" on keys.
\<close>

definition dueKey :: "runtime \<Rightarrow> 'a CanvasAssignment_scheme \<Rightarrow> int option" where
  "dueKey rt a = parseDate rt (due_at a)"

definition dueNotAfter :: "int option \<Rightarrow> int option \<Rightarrow> bool" where
  "dueNotAfter ka kb =
     (case kb of
        None \<Rightarrow> True
      | Some tb \<Rightarrow> (case ka of None \<Rightarrow> False | Some ta \<Rightarrow> ta \<le> tb))"

definition dueRank :: "int option \<Rightarrow> nat \<times> int" where
  "dueRank k = (case k of None \<Rightarrow> (1, 0) | Some t \<Rightarrow> (0, t))"

section \<open>The text filter, as specified\<close>





section \<open>Plain text under the Markdown conversion, as specified\<close>

text \<open>
  What the conversion changes in a text without markup: a dollar sign followed by a
  digit, and a run of three line feeds.
\<close>

fun hasDollarDigit :: "string \<Rightarrow> bool" where
  "hasDollarDigit (c # d # cs) = ((c = CHR ''$'' \<and> isDigit d) \<or> hasDollarDigit (d # cs))"
| "hasDollarDigit _ = False"

definition hasTripleNewline :: "string \<Rightarrow> bool" where
  "hasTripleNewline s = includesStr s [NL, NL, NL]"

section \<open>The outcome of the search, as specified\<close>

text \<open>
  What one course adds to the search: its tagged matches, none when its request (or
  anything else in its \<^verbatim>\<open>try\<close> block) fails; and its lines of the diagnostic
  log, with the record of the failure at the end when it fails.
\<close>

definition courseMatches ::
  "runtime \<Rightarrow> config \<Rightarrow> canvas \<Rightarrow> string \<Rightarrow> string option \<Rightarrow> string option \<Rightarrow> CanvasCourse
     \<Rightarrow> AssignmentWithCourse list" where
  "courseMatches rt cfg cv q dueBefore dueAfter course =
     (case snd (searchCourse rt cfg cv q dueBefore dueAfter course) of
        Inl e \<Rightarrow> []
      | Inr found \<Rightarrow> found)"

definition courseDiagnostics ::
  "runtime \<Rightarrow> config \<Rightarrow> canvas \<Rightarrow> string \<Rightarrow> string option \<Rightarrow> string option \<Rightarrow> CanvasCourse
     \<Rightarrow> string list" where
  "courseDiagnostics rt cfg cv q dueBefore dueAfter course =
     (case searchCourse rt cfg cv q dueBefore dueAfter course of
        (lines, Inr found) \<Rightarrow> lines
      | (lines, Inl e) \<Rightarrow> lines @ [courseFailureLine course e])"

section \<open>Verified properties\<close>

subsection \<open>Dollar escaping in the three conversions\<close>

lemma isDigit_simps [simp]:
  "isDigit (CHR ''0'')" "isDigit (CHR ''1'')" "isDigit (CHR ''2'')" "isDigit (CHR ''3'')"
  "isDigit (CHR ''4'')" "isDigit (CHR ''5'')" "isDigit (CHR ''6'')" "isDigit (CHR ''7'')"
  "isDigit (CHR ''8'')" "isDigit (CHR ''9'')"
  "\<not> isDigit (CHR ''-'')" "\<not> isDigit (CHR ''$'')"
  by (simp_all add: isDigit_def)

text \<open>
  C1.  The claim wants all three conversions to turn a dollar sign followed by digits
  into backslash, dollar, digits, also in the \<^verbatim>\<open>text\<close> of every extracted link.  On
  the document of \<^verbatim>\<open><a href=x>$1</a>\<close> the plain-text and Markdown conversions do
  so, while \<^verbatim>\<open>extractLinks\<close> returns the link text \<^verbatim>\<open>$1\<close> as it stands: it
  reads \<^verbatim>\<open>link.textContent\<close> without the \<^verbatim>\<open>replace\<close> its two siblings apply.
\<close>

theorem extractLinks_leaves_dollar_unescaped:
  "htmlToPlainText (\<lambda>h. [Element ''a'' [(''href'', ''x'')] [Text ''$1'']])
       (Some ''<a href=x>$1</a>'') = BS # ''$1''
   \<and> convertHtmlToMarkdown (\<lambda>h. [Element ''a'' [(''href'', ''x'')] [Text ''$1'']])
       ''<a href=x>$1</a>'' = ''['' @ BS # ''$1](x)''
   \<and> extractLinks (\<lambda>h. [Element ''a'' [(''href'', ''x'')] [Text ''$1'']])
       (Some ''<a href=x>$1</a>'') = [\<lparr>link_text = ''$1'', link_href = ''x''\<rparr>]"
  by (simp add: htmlToPlainText_def convertHtmlToMarkdown_def markdownOfBody_def
      extractLinks_def linksOfBody_def textContent_def getTextContent_def orEmpty_def
      getAttribute_def truthy_def trim_def isWhiteSpace_def BS_def NL_def)

subsection \<open>Dates\<close>

lemmas date_defs = parseDate_def matchesBareDate_def Number_def newDate_def TimeClip_def MakeDate_def
  MakeDay_def MakeTime_def DayFromYear_def InLeapYear_def daysBeforeMonth_def msPerDay_def

text \<open>
  C3.  \<^verbatim>\<open>parseDate\<close> builds local midnight from the three numbers of a bare date
  and hands every other string to the general parser, as the claim says; but a bare
  date whose month or day is out of range is not rejected.  \<^verbatim>\<open>new Date(y, m, d)\<close>
  carries the excess over, so the \<^verbatim>\<open>isNaN\<close> test after it never fires: in the zone
  UTC, 2024-02-30 is parsed to the time value of 2024-03-01, and 2024-13-45 to that of
  2025-02-14.
\<close>

theorem parseDate_rolls_over_invalid_calendar_date:
  "parseDate (zoneRuntime 0 []) (Some ''2024-02-30'') = Some 1709251200000
   \<and> parseDate (zoneRuntime 0 []) (Some ''2024-03-01'') = Some 1709251200000
   \<and> parseDate (zoneRuntime 0 []) (Some ''2024-13-45'') = Some 1739491200000
   \<and> parseDate (zoneRuntime 0 []) (Some ''2025-02-14'') = Some 1739491200000"
  by (simp add: date_defs zoneRuntime_def)

text \<open>
  C2.  \<^verbatim>\<open>isDateInRange\<close> is true when the date is absent or does not parse.
  Otherwise, with \<open>d\<close> the parsed date, it is true exactly when \<open>d\<close> is not after
  the parsed \<^verbatim>\<open>before\<close> bound moved to 23:59:59.999 of its local day, and not
  before the parsed \<^verbatim>\<open>after\<close> bound moved to 00:00:00.000 of its local day; a bound
  that is absent or does not parse excludes nothing.  So a date at the instant
  23:59:59.999 local time of the day of \<^verbatim>\<open>before\<close>, or at 00:00:00.000 local time
  of the day of \<^verbatim>\<open>after\<close>, is in range.
\<close>

theorem isDateInRange_policy:
  "((\<not> truthy date \<or> parseDate rt date = None) \<longrightarrow> isDateInRange rt date before after)
   \<and> (parseDate rt date = Some d \<longrightarrow>
        isDateInRange rt date before after =
          ((case parseDate rt before of
              None \<Rightarrow> True
            | Some b \<Rightarrow> \<not> gtTime d (setHours rt b 23 59 59 999))
           \<and> (case parseDate rt after of
                None \<Rightarrow> True
              | Some a \<Rightarrow> \<not> ltTime d (setHours rt a 0 0 0 0))))
   \<and> (parseDate rt date = Some d \<and> parseDate rt before = Some b
        \<and> d = UTC rt (MakeDate (Day (LocalTime rt b)) (MakeTime 23 59 59 999))
        \<longrightarrow> isDateInRange rt date before None)
   \<and> (parseDate rt date = Some d \<and> parseDate rt after = Some a
        \<and> d = UTC rt (MakeDate (Day (LocalTime rt a)) (MakeTime 0 0 0 0))
        \<longrightarrow> isDateInRange rt date None after)"
proof -
  have present: "truthy x" if "parseDate rt x = Some v" for x v
    using that by (auto simp: parseDate_def truthy_def split: option.splits if_splits)
  have absent: "parseDate rt x = None" if "\<not> truthy x" for x
    using that by (auto simp: parseDate_def truthy_def split: option.splits)
  have c1: "(\<not> truthy date \<or> parseDate rt date = None) \<longrightarrow> isDateInRange rt date before after"
    by (auto simp: isDateInRange_def)
  have c2: "parseDate rt date = Some d \<longrightarrow>
        isDateInRange rt date before after =
          ((case parseDate rt before of
              None \<Rightarrow> True
            | Some b \<Rightarrow> \<not> gtTime d (setHours rt b 23 59 59 999))
           \<and> (case parseDate rt after of
                None \<Rightarrow> True
              | Some a \<Rightarrow> \<not> ltTime d (setHours rt a 0 0 0 0)))"
    using present [of date d] absent [of before] absent [of after]
    by (cases "truthy before"; cases "truthy after")
       (auto simp: isDateInRange_def split: option.splits)
  have c3: "parseDate rt date = Some d \<and> parseDate rt before = Some b
        \<and> d = UTC rt (MakeDate (Day (LocalTime rt b)) (MakeTime 23 59 59 999))
        \<longrightarrow> isDateInRange rt date before None"
    using present [of date d]
    by (auto simp: isDateInRange_def setHours_def gtTime_def TimeClip_def truthy_def
        split: option.splits)
  have c4: "parseDate rt date = Some d \<and> parseDate rt after = Some a
        \<and> d = UTC rt (MakeDate (Day (LocalTime rt a)) (MakeTime 0 0 0 0))
        \<longrightarrow> isDateInRange rt date None after"
    using present [of date d]
    by (auto simp: isDateInRange_def setHours_def ltTime_def TimeClip_def truthy_def
        split: option.splits)
  from c1 c2 c3 c4 show ?thesis by blast
qed

theorem isDateInRange_policy_witness:
  "isDateInRange
     (zoneRuntime (- 18000000)
        [(''2024-03-02T04:59:59.999Z'', 1709355599999), (''2024-03-01T05:00:00.000Z'', 1709269200000)])
     (Some ''2024-03-02T04:59:59.999Z'') (Some ''2024-03-01'') None
   \<and> isDateInRange
     (zoneRuntime (- 18000000)
        [(''2024-03-02T04:59:59.999Z'', 1709355599999), (''2024-03-01T05:00:00.000Z'', 1709269200000)])
     (Some ''2024-03-01T05:00:00.000Z'') None (Some ''2024-03-01'')
   \<and> isDateInRange
     (zoneRuntime (- 18000000)
        [(''2024-03-02T04:59:59.999Z'', 1709355599999), (''2024-03-01T05:00:00.000Z'', 1709269200000)])
     (Some ''next week'') (Some ''2024-03-01'') (Some ''2024-03-01'')"
proof -
  let ?rt = "zoneRuntime (- 18000000)
        [(''2024-03-02T04:59:59.999Z'', 1709355599999), (''2024-03-01T05:00:00.000Z'', 1709269200000)]"
  have day: "parseDate ?rt (Some ''2024-03-01'') = Some 1709269200000"
    by (simp add: date_defs zoneRuntime_def)
  have late: "parseDate ?rt (Some ''2024-03-02T04:59:59.999Z'') = Some 1709355599999"
    by (simp add: date_defs zoneRuntime_def)
  have early: "parseDate ?rt (Some ''2024-03-01T05:00:00.000Z'') = Some 1709269200000"
    by (simp add: date_defs zoneRuntime_def)
  have none: "parseDate ?rt (Some ''next week'') = None"
    by (simp add: date_defs zoneRuntime_def)
  have endOfDay: "1709355599999 = UTC ?rt (MakeDate (Day (LocalTime ?rt 1709269200000)) (MakeTime 23 59 59 999))"
    by (simp add: date_defs zoneRuntime_def Day_def)
  have startOfDay: "1709269200000 = UTC ?rt (MakeDate (Day (LocalTime ?rt 1709269200000)) (MakeTime 0 0 0 0))"
    by (simp add: date_defs zoneRuntime_def Day_def)
  have "isDateInRange ?rt (Some ''2024-03-02T04:59:59.999Z'') (Some ''2024-03-01'') None"
    using isDateInRange_policy [of "Some ''2024-03-02T04:59:59.999Z''" ?rt "Some ''2024-03-01''" None
        1709355599999 1709269200000 0] day late endOfDay
    by blast
  moreover have "isDateInRange ?rt (Some ''2024-03-01T05:00:00.000Z'') None (Some ''2024-03-01'')"
    using isDateInRange_policy [of "Some ''2024-03-01T05:00:00.000Z''" ?rt None "Some ''2024-03-01''"
        1709269200000 0 1709269200000] day early startOfDay
    by blast
  moreover have "isDateInRange ?rt (Some ''next week'') (Some ''2024-03-01'') (Some ''2024-03-01'')"
    using isDateInRange_policy [of "Some ''next week''" ?rt "Some ''2024-03-01''" "Some ''2024-03-01''" 0 0 0]
      none
    by blast
  ultimately show ?thesis by blast
qed

subsection \<open>The final sort of the search\<close>

lemma insertBy_insort_key:
  fixes f :: "'a \<Rightarrow> 'k::linorder"
  assumes "\<And>y. y \<in> set ys \<Longrightarrow> (cmp x y \<le> 0) = (f x \<le> f y)"
  shows "insertBy cmp x ys = insort_key f x ys"
  using assms by (induction ys) auto

lemma sortBy_sort_key:
  fixes f :: "'a \<Rightarrow> 'k::linorder"
  assumes "\<And>x y. x \<in> set xs \<Longrightarrow> y \<in> set xs \<Longrightarrow> (cmp x y \<le> 0) = (f x \<le> f y)"
  shows "sortBy cmp xs = sort_key f xs"
  using assms
proof (induction xs)
  case Nil
  show ?case by (simp add: sortBy_def sort_key_def)
next
  case (Cons x xs)
  have tail: "sortBy cmp xs = sort_key f xs"
    using Cons by simp
  have "sortBy cmp (x # xs) = insertBy cmp x (sort_key f xs)"
    using tail by (simp add: sortBy_def)
  also have "\<dots> = insort_key f x (sort_key f xs)"
    using Cons.prems by (intro insertBy_insort_key) simp
  finally show ?case
    by (simp add: sort_key_def)
qed

lemma parseDate_absent: "\<not> truthy x \<Longrightarrow> parseDate rt x = None"
  by (auto simp: parseDate_def truthy_def split: option.splits)

lemma compareDue_rank:
  assumes "truthy (due_at a) \<longrightarrow> parseDate rt (due_at a) \<noteq> None"
    and "truthy (due_at b) \<longrightarrow> parseDate rt (due_at b) \<noteq> None"
  shows "(compareDue rt a b \<le> 0) = (dueRank (dueKey rt a) \<le> dueRank (dueKey rt b))"
  using assms parseDate_absent [of "due_at a" rt] parseDate_absent [of "due_at b" rt]
  by (cases "truthy (due_at a)"; cases "truthy (due_at b)")
     (auto simp: compareDue_def dueRank_def dueKey_def split: option.splits)

lemma dueRank_le: "(dueRank ka \<le> dueRank kb) = dueNotAfter ka kb"
  by (auto simp: dueRank_def dueNotAfter_def split: option.splits)

lemma dueRank_inj: "(dueRank ka = dueRank kb) = (ka = kb)"
  by (auto simp: dueRank_def split: option.splits)

text \<open>
  C4 (as amended).  For every list of results in which each due date that is present
  parses, the final sort returns a permutation of the list that is ascending by parsed
  due date with the assignments without a due date last, and it keeps the encounter
  order among assignments of equal key (equal due dates, or none).
\<close>

theorem search_results_sorted_stable:
  fixes xs :: "AssignmentWithCourse list"
  assumes "\<forall>a \<in> set xs. truthy (due_at a) \<longrightarrow> parseDate rt (due_at a) \<noteq> None"
  shows "mset (sortBy (compareDue rt) xs) = mset xs
    \<and> sorted_wrt (\<lambda>a b. dueNotAfter (dueKey rt a) (dueKey rt b)) (sortBy (compareDue rt) xs)
    \<and> (\<forall>k. filter (\<lambda>a. dueKey rt a = k) (sortBy (compareDue rt) xs)
            = filter (\<lambda>a. dueKey rt a = k) xs)"
proof -
  let ?f = "\<lambda>a :: AssignmentWithCourse. dueRank (dueKey rt a)"
  have eq: "sortBy (compareDue rt) xs = sort_key ?f xs"
    using assms by (intro sortBy_sort_key compareDue_rank) auto
  have "sorted (map ?f (sort_key ?f xs))"
    by (rule sorted_sort_key)
  then have ordered: "sorted_wrt (\<lambda>a b. dueNotAfter (dueKey rt a) (dueKey rt b)) (sort_key ?f xs)"
    by (simp add: sorted_map dueRank_le)
  have stable: "filter (\<lambda>a. dueKey rt a = k) (sort_key ?f xs) = filter (\<lambda>a. dueKey rt a = k) xs" for k
    using sort_key_stable [of ?f "dueRank k" xs] by (simp add: dueRank_inj)
  show ?thesis
    using ordered stable by (simp add: eq)
qed

lemmas result_defs = exampleResult_def withCourse_def exampleAssignment_def
  CanvasAssignment.defs AssignmentWithCourse.defs

lemma due_at_exampleResult: "due_at (exampleResult i due) = due"
  by (simp add: result_defs)

lemma parseDate_examples:
  "parseDate (zoneRuntime 0 []) (Some ''2024-03-01'') = Some 1709251200000"
  "parseDate (zoneRuntime 0 []) (Some ''2024-01-01'') = Some 1704067200000"
  "parseDate (zoneRuntime 0 []) (Some ''soon'') = None"
  "parseDate (zoneRuntime 0 []) None = None"
  by (simp_all add: date_defs zoneRuntime_def)

theorem search_results_sorted_stable_witness:
  "dueKey (zoneRuntime 0 []) (exampleResult 1 (Some ''2024-03-01'')) = Some 1709251200000
   \<and> dueKey (zoneRuntime 0 []) (exampleResult 2 None) = None
   \<and> dueKey (zoneRuntime 0 []) (exampleResult 3 (Some ''2024-01-01'')) = Some 1704067200000
   \<and> sortBy (compareDue (zoneRuntime 0 []))
        [exampleResult 1 (Some ''2024-03-01''), exampleResult 2 None,
         exampleResult 3 (Some ''2024-01-01'')]
      = [exampleResult 3 (Some ''2024-01-01''), exampleResult 1 (Some ''2024-03-01''),
         exampleResult 2 None]
   \<and> sorted_wrt (\<lambda>a b. dueNotAfter (dueKey (zoneRuntime 0 []) a) (dueKey (zoneRuntime 0 []) b))
        (sortBy (compareDue (zoneRuntime 0 []))
           [exampleResult 1 (Some ''2024-03-01''), exampleResult 2 None,
            exampleResult 3 (Some ''2024-01-01'')])"
proof -
  let ?xs = "[exampleResult 1 (Some ''2024-03-01''), exampleResult 2 None,
              exampleResult 3 (Some ''2024-01-01'')]"
  have parses: "\<forall>a \<in> set ?xs. truthy (due_at a) \<longrightarrow> parseDate (zoneRuntime 0 []) (due_at a) \<noteq> None"
    by (simp add: due_at_exampleResult parseDate_examples truthy_def)
  have order: "sortBy (compareDue (zoneRuntime 0 [])) ?xs
      = [exampleResult 3 (Some ''2024-01-01''), exampleResult 1 (Some ''2024-03-01''),
         exampleResult 2 None]"
    by (simp add: sortBy_def compareDue_def due_at_exampleResult parseDate_examples truthy_def)
  have keys: "dueKey (zoneRuntime 0 []) (exampleResult 1 (Some ''2024-03-01'')) = Some 1709251200000"
    "dueKey (zoneRuntime 0 []) (exampleResult 2 None) = None"
    "dueKey (zoneRuntime 0 []) (exampleResult 3 (Some ''2024-01-01'')) = Some 1704067200000"
    by (simp_all add: dueKey_def due_at_exampleResult parseDate_examples)
  show ?thesis
    using keys order search_results_sorted_stable [OF parses] by blast
qed

text \<open>
  C4 as stated fails on a list that holds a due date that does not parse: the
  comparator answers 0 for it against every dated assignment, so the assignment due
  2024-03-01 stays before the one due 2024-01-01.
\<close>

theorem search_sort_unparseable_due_date:
  "sortBy (compareDue (zoneRuntime 0 []))
     [exampleResult 1 (Some ''2024-03-01''), exampleResult 2 (Some ''soon''),
      exampleResult 3 (Some ''2024-01-01'')]
   = [exampleResult 1 (Some ''2024-03-01''), exampleResult 2 (Some ''soon''),
      exampleResult 3 (Some ''2024-01-01'')]
   \<and> dueKey (zoneRuntime 0 []) (exampleResult 1 (Some ''2024-03-01'')) = Some 1709251200000
   \<and> dueKey (zoneRuntime 0 []) (exampleResult 3 (Some ''2024-01-01'')) = Some 1704067200000
   \<and> \<not> dueNotAfter (dueKey (zoneRuntime 0 []) (exampleResult 1 (Some ''2024-03-01'')))
                     (dueKey (zoneRuntime 0 []) (exampleResult 3 (Some ''2024-01-01'')))"
  by (simp add: sortBy_def compareDue_def dueKey_def dueNotAfter_def due_at_exampleResult
      parseDate_examples truthy_def)

subsection \<open>Failures of single courses in the search\<close>

lemma searchCourses_acc:
  "searchCourses rt cfg cv q dueBefore dueAfter courses (acc, log) =
     (acc @ concat (map (\<lambda>course. case snd (searchCourse rt cfg cv q dueBefore dueAfter course) of
                                     Inl e \<Rightarrow> [] | Inr found \<Rightarrow> found) courses),
      log @ concat (map (\<lambda>course. case searchCourse rt cfg cv q dueBefore dueAfter course of
                                     (lines, Inr found) \<Rightarrow> lines
                                   | (lines, Inl e) \<Rightarrow>
                                       lines @ [courseFailureLine course e])
                        courses))"
proof (induction courses arbitrary: acc log)
  case Nil
  show ?case by simp
next
  case (Cons course courses)
  obtain lines res where step: "searchCourse rt cfg cv q dueBefore dueAfter course = (lines, res)"
    by (cases "searchCourse rt cfg cv q dueBefore dueAfter course")
  show ?case
  proof (cases res)
    case (Inl e)
    with step Cons.IH show ?thesis by simp
  next
    case (Inr found)
    with step Cons.IH show ?thesis by simp
  qed
qed

lemma searchCourse_tags:
  assumes "snd (searchCourse rt cfg cv q dueBefore dueAfter course) = Inr found" and "r \<in> set found"
  shows "courseName r = course_name course \<and> courseId r = course_id course"
  using assms
  by (auto simp: searchCourse_def Let_def withCourse_def CanvasAssignment.defs
      AssignmentWithCourse.defs split: sum.splits)

lemma mset_insertBy: "mset (insertBy cmp x ys) = add_mset x (mset ys)"
  by (induction ys) simp_all

lemma mset_sortBy: "mset (sortBy cmp xs) = mset xs"
  by (induction xs) (simp_all add: sortBy_def mset_insertBy)

lemma searchCourses_spec:
  "searchCourses rt cfg cv q dueBefore dueAfter courses ([], []) =
     (concat (map (courseMatches rt cfg cv q dueBefore dueAfter) courses),
      concat (map (courseDiagnostics rt cfg cv q dueBefore dueAfter) courses))"
proof -
  have matches: "courseMatches rt cfg cv q dueBefore dueAfter
      = (\<lambda>course. case snd (searchCourse rt cfg cv q dueBefore dueAfter course) of
                     Inl e \<Rightarrow> [] | Inr found \<Rightarrow> found)"
    by (intro ext) (simp add: courseMatches_def)
  have lines: "courseDiagnostics rt cfg cv q dueBefore dueAfter
      = (\<lambda>course. case searchCourse rt cfg cv q dueBefore dueAfter course of
                     (lines, Inr found) \<Rightarrow> lines
                   | (lines, Inl e) \<Rightarrow> lines @ [courseFailureLine course e])"
    by (intro ext) (simp add: courseDiagnostics_def)
  show ?thesis
    unfolding matches lines by (simp add: searchCourses_acc)
qed

lemma searchCourse_request:
  assumes "boundParam rt ''due_after'' dueAfter 0 0 0 0 = Inr afterParam"
    and "boundParam rt ''due_before'' dueBefore 23 59 59 999 = Inr beforeParam"
  shows "snd (searchCourse rt cfg cv q dueBefore dueAfter course) =
     (case canvasApiRequest cfg (fetchAssignments cv)
             (''/courses/'' @ showInt (course_id course)
              @ ''/assignments?per_page=100&order_by=due_at&include[]=submission''
              @ (if urlEncode rt (bucketParam dueBefore dueAfter @ afterParam @ beforeParam) \<noteq> []
                 then ''&'' @ urlEncode rt (bucketParam dueBefore dueAfter @ afterParam @ beforeParam)
                 else [])) of
        Inl e \<Rightarrow> Inl e
      | Inr assignments \<Rightarrow>
          Inr (map (withCourse course)
                 (dateFilteredAssignments rt dueBefore dueAfter
                    (bucketParam dueBefore dueAfter @ afterParam @ beforeParam)
                    (matchingAssignments rt q assignments))))"
  using assms by (simp add: searchCourse_def Let_def split: sum.splits)

text \<open>
  C5.  Once the candidate courses are resolved, the search handler returns a result
  that is not flagged as an error, whichever courses fail: for no course at all the
  text \<^verbatim>\<open>No courses found.\<close>, and otherwise the text that lists the sorted matches
  of the courses whose \<^verbatim>\<open>try\<close> block completed, with the log of each course in
  turn as its diagnostic log.  A course whose block
  throws adds no match, and its failure is one line of the log.  A course whose block
  completes has all its matches in the sorted list, each tagged with the name and the
  ID of that course; the sorted list holds nothing else.  The block of a course fails
  exactly with the error of its assignment request, and otherwise yields the
  assignments of the response that pass the text and date filters, tagged.
\<close>

theorem search_isolates_course_failures:
  assumes "resolveCourses cfg cv includeCompleted courseIdArg = Inr courses"
  shows
    "(courses = [] \<longrightarrow>
        search_assignments rt cfg cv query dueBefore dueAfter includeCompleted courseIdArg
          = (Returned \<lparr>resultText = ''No courses found.'', isError = False\<rparr>, []))
     \<and> (courses \<noteq> [] \<longrightarrow>
       (let allResults = sortBy (compareDue rt)
          (concat (map (courseMatches rt cfg cv (normalizeQuery query) dueBefore dueAfter) courses))
      in search_assignments rt cfg cv query dueBefore dueAfter includeCompleted courseIdArg =
          (Returned
             \<lparr>resultText =
                (if allResults = []
                 then ''No assignments found'' @ queryText (normalizeQuery query)
                      @ dateRangeText dueBefore dueAfter @ ''.''
                 else ''Found '' @ showInt (int (length allResults)) @ '' assignments''
                      @ queryText (normalizeQuery query) @ dateRangeText dueBefore dueAfter
                      @ '':'' @ [NL, NL] @ join [NL, NL] (map (resultEntry rt) allResults)),
              isError = False\<rparr>,
           concat (map (courseDiagnostics rt cfg cv (normalizeQuery query) dueBefore dueAfter)
                     courses))))
     \<and> mset (sortBy (compareDue rt)
          (concat (map (courseMatches rt cfg cv (normalizeQuery query) dueBefore dueAfter) courses)))
        = mset (concat (map (courseMatches rt cfg cv (normalizeQuery query) dueBefore dueAfter)
                          courses))
     \<and> (\<forall>course \<in> set courses. \<forall>e.
          snd (searchCourse rt cfg cv (normalizeQuery query) dueBefore dueAfter course) = Inl e \<longrightarrow>
            courseMatches rt cfg cv (normalizeQuery query) dueBefore dueAfter course = []
            \<and> courseFailureLine course e
                \<in> set (snd (search_assignments rt cfg cv query dueBefore dueAfter includeCompleted
                               courseIdArg)))
     \<and> (\<forall>course \<in> set courses. \<forall>found.
          snd (searchCourse rt cfg cv (normalizeQuery query) dueBefore dueAfter course) = Inr found \<longrightarrow>
            courseMatches rt cfg cv (normalizeQuery query) dueBefore dueAfter course = found
            \<and> set found
                \<subseteq> set (sortBy (compareDue rt)
                         (concat (map (courseMatches rt cfg cv (normalizeQuery query) dueBefore
                                         dueAfter) courses)))
            \<and> (\<forall>r \<in> set found. courseName r = course_name course \<and> courseId r = course_id course))
     \<and> (\<forall>course afterParam beforeParam.
          boundParam rt ''due_after'' dueAfter 0 0 0 0 = Inr afterParam
          \<and> boundParam rt ''due_before'' dueBefore 23 59 59 999 = Inr beforeParam \<longrightarrow>
            snd (searchCourse rt cfg cv (normalizeQuery query) dueBefore dueAfter course) =
              (case canvasApiRequest cfg (fetchAssignments cv)
                      (''/courses/'' @ showInt (course_id course)
                       @ ''/assignments?per_page=100&order_by=due_at&include[]=submission''
                       @ (if urlEncode rt (bucketParam dueBefore dueAfter @ afterParam @ beforeParam)
                             \<noteq> []
                          then ''&'' @ urlEncode rt (bucketParam dueBefore dueAfter @ afterParam
                                                      @ beforeParam)
                          else [])) of
                 Inl e \<Rightarrow> Inl e
               | Inr assignments \<Rightarrow>
                   Inr (map (withCourse course)
                          (dateFilteredAssignments rt dueBefore dueAfter
                             (bucketParam dueBefore dueAfter @ afterParam @ beforeParam)
                             (matchingAssignments rt (normalizeQuery query) assignments)))))"
proof -
  let ?q = "normalizeQuery query"
  let ?matches = "courseMatches rt cfg cv ?q dueBefore dueAfter"
  let ?lines = "courseDiagnostics rt cfg cv ?q dueBefore dueAfter"
  let ?all = "sortBy (compareDue rt) (concat (map ?matches courses))"
  have none: "courses = [] \<longrightarrow>
        search_assignments rt cfg cv query dueBefore dueAfter includeCompleted courseIdArg
          = (Returned \<lparr>resultText = ''No courses found.'', isError = False\<rparr>, [])"
    unfolding search_assignments_def Let_def assms textResult_def by simp
  have handler: "search_assignments rt cfg cv query dueBefore dueAfter includeCompleted courseIdArg =
          (Returned
             \<lparr>resultText =
                (if ?all = []
                 then ''No assignments found'' @ queryText ?q
                      @ dateRangeText dueBefore dueAfter @ ''.''
                 else ''Found '' @ showInt (int (length ?all)) @ '' assignments''
                      @ queryText ?q @ dateRangeText dueBefore dueAfter
                      @ '':'' @ [NL, NL] @ join [NL, NL] (map (resultEntry rt) ?all)),
              isError = False\<rparr>,
           concat (map ?lines courses))"
    if "courses \<noteq> []"
    unfolding search_assignments_def Let_def assms searchCourses_spec textResult_def
    using that by simp
  have log: "snd (search_assignments rt cfg cv query dueBefore dueAfter includeCompleted courseIdArg)
      = concat (map ?lines courses)"
    if "courses \<noteq> []"
    by (simp only: handler [OF that] snd_conv)
  have permuted: "mset ?all = mset (concat (map ?matches courses))"
    by (rule mset_sortBy)
  then have same: "set ?all = set (concat (map ?matches courses))"
    by (metis set_mset_mset)
  have failed: "?matches course = [] \<and> courseFailureLine course e
      \<in> set (snd (search_assignments rt cfg cv query dueBefore dueAfter includeCompleted courseIdArg))"
    if member: "course \<in> set courses"
      and thrown: "snd (searchCourse rt cfg cv ?q dueBefore dueAfter course) = Inl e" for course e
  proof -
    obtain lines where "searchCourse rt cfg cv ?q dueBefore dueAfter course = (lines, Inl e)"
      using thrown by (cases "searchCourse rt cfg cv ?q dueBefore dueAfter course") auto
    then have "courseFailureLine course e \<in> set (?lines course)"
      by (simp add: courseDiagnostics_def)
    with member have "courseFailureLine course e \<in> set (concat (map ?lines courses))"
      by auto
    moreover have "courses \<noteq> []"
      using member by auto
    ultimately show ?thesis
      using thrown by (simp add: log courseMatches_def)
  qed
  have kept: "?matches course = found \<and> set found \<subseteq> set ?all
      \<and> (\<forall>r \<in> set found. courseName r = course_name course \<and> courseId r = course_id course)"
    if member: "course \<in> set courses"
      and succeeded: "snd (searchCourse rt cfg cv ?q dueBefore dueAfter course) = Inr found"
    for course found
  proof -
    have own: "?matches course = found"
      using succeeded by (simp add: courseMatches_def)
    with member have "set found \<subseteq> set (concat (map ?matches courses))"
      by auto
    then show ?thesis
      using own same searchCourse_tags [OF succeeded] by simp
  qed
  have failures: "\<forall>course \<in> set courses. \<forall>e.
          snd (searchCourse rt cfg cv ?q dueBefore dueAfter course) = Inl e \<longrightarrow>
            ?matches course = []
            \<and> courseFailureLine course e
                \<in> set (snd (search_assignments rt cfg cv query dueBefore dueAfter includeCompleted
                               courseIdArg))"
    using failed by blast
  have successes: "\<forall>course \<in> set courses. \<forall>found.
          snd (searchCourse rt cfg cv ?q dueBefore dueAfter course) = Inr found \<longrightarrow>
            ?matches course = found
            \<and> set found \<subseteq> set ?all
            \<and> (\<forall>r \<in> set found. courseName r = course_name course \<and> courseId r = course_id course)"
    using kept by blast
  have requests: "\<forall>course afterParam beforeParam.
          boundParam rt ''due_after'' dueAfter 0 0 0 0 = Inr afterParam
          \<and> boundParam rt ''due_before'' dueBefore 23 59 59 999 = Inr beforeParam \<longrightarrow>
            snd (searchCourse rt cfg cv ?q dueBefore dueAfter course) =
              (case canvasApiRequest cfg (fetchAssignments cv)
                      (''/courses/'' @ showInt (course_id course)
                       @ ''/assignments?per_page=100&order_by=due_at&include[]=submission''
                       @ (if urlEncode rt (bucketParam dueBefore dueAfter @ afterParam @ beforeParam)
                             \<noteq> []
                          then ''&'' @ urlEncode rt (bucketParam dueBefore dueAfter @ afterParam
                                                      @ beforeParam)
                          else [])) of
                 Inl e \<Rightarrow> Inl e
               | Inr assignments \<Rightarrow>
                   Inr (map (withCourse course)
                          (dateFilteredAssignments rt dueBefore dueAfter
                             (bucketParam dueBefore dueAfter @ afterParam @ beforeParam)
                             (matchingAssignments rt ?q assignments))))"
    using searchCourse_request by blast
  have some: "courses \<noteq> [] \<longrightarrow>
        search_assignments rt cfg cv query dueBefore dueAfter includeCompleted courseIdArg =
          (Returned
             \<lparr>resultText =
                (if ?all = []
                 then ''No assignments found'' @ queryText ?q
                      @ dateRangeText dueBefore dueAfter @ ''.''
                 else ''Found '' @ showInt (int (length ?all)) @ '' assignments''
                      @ queryText ?q @ dateRangeText dueBefore dueAfter
                      @ '':'' @ [NL, NL] @ join [NL, NL] (map (resultEntry rt) ?all)),
              isError = False\<rparr>,
           concat (map ?lines courses))"
    using handler by blast
  show ?thesis
    unfolding Let_def by (intro conjI none some permuted failures successes requests)
qed

lemma isDateInRange_unbounded: "isDateInRange rt date None None"
  by (simp add: isDateInRange_def truthy_def split: option.splits)

lemma char_of_digit:
  "char_of (48::nat) = CHR ''0''" "char_of (49::nat) = CHR ''1''" "char_of (50::nat) = CHR ''2''"
  "char_of (51::nat) = CHR ''3''" "char_of (52::nat) = CHR ''4''" "char_of (53::nat) = CHR ''5''"
  "char_of (54::nat) = CHR ''6''" "char_of (55::nat) = CHR ''7''" "char_of (56::nat) = CHR ''8''"
  "char_of (57::nat) = CHR ''9''"
  by code_simp+

lemmas example_defs = canvasApiRequest_def getBaseUrl_def exampleConfig_def exampleCanvas_def
  okResponse_def truthy_def orEmpty_def showInt_def digitsOf.simps char_of_digit

theorem search_isolates_course_failures_witness:
  "resolveCourses exampleConfig exampleCanvas False None
     = Inr [\<lparr>course_id = 1, course_name = ''Algebra'', course_term = None\<rparr>,
            \<lparr>course_id = 2, course_name = ''Biology'', course_term = None\<rparr>]
   \<and> snd (searchCourse (zoneRuntime 0 [(''2024-03-01'', 1709251200000)]) exampleConfig exampleCanvas
            (normalizeQuery None) None None
            \<lparr>course_id = 2, course_name = ''Biology'', course_term = None\<rparr>)
       = Inl (Error ''Canvas API error: 500 - down'')
   \<and> search_assignments (zoneRuntime 0 [(''2024-03-01'', 1709251200000)]) exampleConfig
        exampleCanvas None None None False None
       = (Returned
            \<lparr>resultText = ''Found 2 assignments:\<newline>\<newline>- Course: Algebra (ID: 1)\<newline>  Assignment: Essay (ID: 11)\<newline>  Due: 1709251200000\<newline>\<newline>- Course: Algebra (ID: 1)\<newline>  Assignment: Essay (ID: 12)\<newline>  Due: No date set'',
             isError = False\<rparr>,
          [''Fetching assignments from URL: /courses/1/assignments?per_page=100&order_by=due_at&include[]=submission'',
           ''Found 2 assignments in course 1'',
           ''Fetching assignments from URL: /courses/2/assignments?per_page=100&order_by=due_at&include[]=submission'',
           ''Error searching in course 2: Canvas API error: 500 - down''])"
proof -
  let ?rt = "zoneRuntime 0 [(''2024-03-01'', 1709251200000)]"
  let ?c1 = "\<lparr>course_id = 1, course_name = ''Algebra'', course_term = None\<rparr>"
  let ?c2 = "\<lparr>course_id = 2, course_name = ''Biology'', course_term = None\<rparr>"
  let ?body = "searchCourse ?rt exampleConfig exampleCanvas (normalizeQuery None) None None"
  have resolved: "resolveCourses exampleConfig exampleCanvas False None = Inr [?c1, ?c2]"
    by (simp add: resolveCourses_def example_defs)
  have failed: "?body ?c2 =
      ([''Fetching assignments from URL: /courses/2/assignments?per_page=100&order_by=due_at&include[]=submission''],
       Inl (Error ''Canvas API error: 500 - down''))"
    by (simp add: searchCourse_def boundParam_def bucketParam_def zoneRuntime_def example_defs
        normalizeQuery_def)
  have found: "?body ?c1 =
      ([''Fetching assignments from URL: /courses/1/assignments?per_page=100&order_by=due_at&include[]=submission'',
        ''Found 2 assignments in course 1''],
       Inr [exampleResult 11 (Some ''2024-03-01''), exampleResult 12 None])"
    by (simp add: searchCourse_def boundParam_def bucketParam_def zoneRuntime_def example_defs
        matchingAssignments_def dateFilteredAssignments_def isWildcardQuery_def normalizeQuery_def
        isDateInRange_unbounded exampleResult_def)
  have matches: "courseMatches ?rt exampleConfig exampleCanvas (normalizeQuery None) None None ?c1
        = [exampleResult 11 (Some ''2024-03-01''), exampleResult 12 None]"
    "courseMatches ?rt exampleConfig exampleCanvas (normalizeQuery None) None None ?c2 = []"
    by (simp_all only: courseMatches_def found failed snd_conv sum.case)
  have lines: "courseDiagnostics ?rt exampleConfig exampleCanvas (normalizeQuery None) None None ?c1
        = [''Fetching assignments from URL: /courses/1/assignments?per_page=100&order_by=due_at&include[]=submission'',
           ''Found 2 assignments in course 1'']"
    "courseDiagnostics ?rt exampleConfig exampleCanvas (normalizeQuery None) None None ?c2
        = [''Fetching assignments from URL: /courses/2/assignments?per_page=100&order_by=due_at&include[]=submission'',
           ''Error searching in course 2: Canvas API error: 500 - down'']"
    by (simp_all add: courseDiagnostics_def found failed courseFailureLine_def showInt_def
        digitsOf.simps char_of_digit)
  have sorted: "sortBy (compareDue ?rt) [exampleResult 11 (Some ''2024-03-01''), exampleResult 12 None]
      = [exampleResult 11 (Some ''2024-03-01''), exampleResult 12 None]"
    by (simp add: sortBy_def compareDue_def due_at_exampleResult truthy_def)
  have entries: "resultEntry ?rt (exampleResult 11 (Some ''2024-03-01''))
        = ''- Course: Algebra (ID: 1)\<newline>  Assignment: Essay (ID: 11)\<newline>  Due: 1709251200000''"
    "resultEntry ?rt (exampleResult 12 None)
        = ''- Course: Algebra (ID: 1)\<newline>  Assignment: Essay (ID: 12)\<newline>  Due: No date set''"
    by (simp_all add: resultEntry_def formatDate_def zoneRuntime_def result_defs showInt_def
        digitsOf.simps char_of_digit truthy_def orEmpty_def NL_def)
  have texts: "queryText (normalizeQuery None) = []" "dateRangeText None None = []"
    by (simp_all add: queryText_def normalizeQuery_def isWildcardQuery_def dateRangeText_def
        truthy_def)
  have count: "showInt 2 = ''2''"
    by (simp add: showInt_def digitsOf.simps char_of_digit)
  have some: "[?c1, ?c2] \<noteq> []"
    by simp
  have "search_assignments ?rt exampleConfig exampleCanvas None None None False None
       = (Returned
            \<lparr>resultText = ''Found 2 assignments:\<newline>\<newline>- Course: Algebra (ID: 1)\<newline>  Assignment: Essay (ID: 11)\<newline>  Due: 1709251200000\<newline>\<newline>- Course: Algebra (ID: 1)\<newline>  Assignment: Essay (ID: 12)\<newline>  Due: No date set'',
             isError = False\<rparr>,
          [''Fetching assignments from URL: /courses/1/assignments?per_page=100&order_by=due_at&include[]=submission'',
           ''Found 2 assignments in course 1'',
           ''Fetching assignments from URL: /courses/2/assignments?per_page=100&order_by=due_at&include[]=submission'',
           ''Error searching in course 2: Canvas API error: 500 - down''])"
    using search_isolates_course_failures
      [OF resolved, of ?rt None None None, unfolded Let_def, THEN conjunct2, THEN conjunct1]
    by (simp add: matches lines sorted entries texts count NL_def)
  then show ?thesis
    using resolved failed by simp
qed

subsection \<open>The text filter of the search\<close>














subsection \<open>Absent and blank queries\<close>

lemma trim_blank:
  assumes "list_all isWhiteSpace q"
  shows "trim q = []"
proof -
  have gone: "dropWhile isWhiteSpace q = []"
    using assms by (induction q) auto
  show ?thesis
    unfolding trim_def gone by simp
qed

lemma searchCourse_wildcard:
  assumes "isWildcardQuery q" and "isWildcardQuery q'"
  shows "searchCourse rt cfg cv q dueBefore dueAfter course
       = searchCourse rt cfg cv q' dueBefore dueAfter course"
proof -
  have same: "matchingAssignments rt q = matchingAssignments rt q'"
    using assms by (intro ext) (simp add: matchingAssignments_def)
  show ?thesis
    unfolding searchCourse_def same by (rule refl)
qed

lemma searchCourses_wildcard:
  assumes "isWildcardQuery q" and "isWildcardQuery q'"
  shows "searchCourses rt cfg cv q dueBefore dueAfter courses state
       = searchCourses rt cfg cv q' dueBefore dueAfter courses state"
proof -
  obtain acc log where state: "state = (acc, log)"
    by (cases state)
  have "searchCourse rt cfg cv q dueBefore dueAfter = searchCourse rt cfg cv q' dueBefore dueAfter"
    using searchCourse_wildcard [OF assms] by (intro ext)
  then show ?thesis
    by (simp add: state searchCourses_acc)
qed

lemma search_assignments_wildcard:
  assumes "isWildcardQuery (normalizeQuery query)" and "isWildcardQuery (normalizeQuery query')"
  shows "search_assignments rt cfg cv query dueBefore dueAfter includeCompleted courseIdArg
       = search_assignments rt cfg cv query' dueBefore dueAfter includeCompleted courseIdArg"
proof -
  have shown: "queryText (normalizeQuery query) = queryText (normalizeQuery query')"
    using assms by (simp add: queryText_def)
  have run: "searchCourses rt cfg cv (normalizeQuery query)
      = searchCourses rt cfg cv (normalizeQuery query')"
    using assms by (intro ext) (rule searchCourses_wildcard)
  show ?thesis
    unfolding search_assignments_def Let_def shown run by (rule refl)
qed

text \<open>
  C10.  An absent query and a query of white space only are normalised to the empty
  string, which is the wildcard: the text filter keeps every assignment, the result
  text does not mention the query, and the handler gives the same outcome and the
  same diagnostic log as for the queries \<^verbatim>\<open>""\<close> and \<^verbatim>\<open>"*"\<close>.
\<close>

theorem blank_query_is_wildcard:
  assumes "query = None \<or> (\<exists>q. query = Some q \<and> list_all isWhiteSpace q)"
  shows "normalizeQuery query = []
    \<and> isWildcardQuery (normalizeQuery query)
    \<and> matchingAssignments rt (normalizeQuery query) assignments = assignments
    \<and> queryText (normalizeQuery query) = []
    \<and> search_assignments rt cfg cv query dueBefore dueAfter includeCompleted courseIdArg
        = search_assignments rt cfg cv (Some []) dueBefore dueAfter includeCompleted courseIdArg
    \<and> search_assignments rt cfg cv query dueBefore dueAfter includeCompleted courseIdArg
        = search_assignments rt cfg cv (Some ''*'') dueBefore dueAfter includeCompleted courseIdArg"
proof -
  have blank: "normalizeQuery query = []"
    using assms by (auto simp: normalizeQuery_def trim_blank)
  then have wild: "isWildcardQuery (normalizeQuery query)"
    by (simp add: isWildcardQuery_def)
  have empty: "isWildcardQuery (normalizeQuery (Some []))"
    by (simp add: isWildcardQuery_def normalizeQuery_def trim_def)
  have star: "isWildcardQuery (normalizeQuery (Some ''*''))"
    by (simp add: isWildcardQuery_def normalizeQuery_def trim_def isWhiteSpace_def)
  show ?thesis
    using blank wild search_assignments_wildcard [OF wild empty]
      search_assignments_wildcard [OF wild star]
    by (simp add: matchingAssignments_def queryText_def)
qed

theorem blank_query_is_wildcard_witness:
  "list_all isWhiteSpace [CHR '' '', CHR 0x09, CHR '' '']
   \<and> normalizeQuery (Some [CHR '' '', CHR 0x09, CHR '' '']) = []
   \<and> search_assignments (zoneRuntime 0 []) exampleConfig exampleCanvas
        (Some [CHR '' '', CHR 0x09, CHR '' '']) None None False None
      = search_assignments (zoneRuntime 0 []) exampleConfig exampleCanvas
        (Some ''*'') None None False None
   \<and> search_assignments (zoneRuntime 0 []) exampleConfig exampleCanvas None None None False None
      = search_assignments (zoneRuntime 0 []) exampleConfig exampleCanvas
        (Some ''*'') None None False None"
proof -
  have blank: "list_all isWhiteSpace [CHR '' '', CHR 0x09, CHR '' '']"
    by (simp add: isWhiteSpace_def)
  then have spaces: "Some [CHR '' '', CHR 0x09, CHR '' ''] = None
      \<or> (\<exists>q. Some [CHR '' '', CHR 0x09, CHR '' ''] = Some q \<and> list_all isWhiteSpace q)"
    by blast
  have absent: "(None :: string option) = None \<or> (\<exists>q. None = Some q \<and> list_all isWhiteSpace q)"
    by simp
  show ?thesis
    using blank
      blank_query_is_wildcard [OF spaces, of "zoneRuntime 0 []" "[]"
        exampleConfig exampleCanvas None None False None]
      blank_query_is_wildcard [OF absent, of "zoneRuntime 0 []" "[]"
        exampleConfig exampleCanvas None None False None]
    by blast
qed

subsection \<open>Markdown conversion of plain text\<close>

lemma hasDollarDigit_tail: "hasDollarDigit cs \<Longrightarrow> hasDollarDigit (c # cs)"
  by (cases cs) auto

lemma escapeDollar_id: "\<not> hasDollarDigit s \<Longrightarrow> escapeDollar s = s"
proof (induction s rule: escapeDollar.induct)
  case 1
  show ?case by simp
next
  case (2 c cs)
  have plain: "\<not> (c = CHR ''$'' \<and> takeWhile isDigit cs \<noteq> [])"
  proof
    assume hit: "c = CHR ''$'' \<and> takeWhile isDigit cs \<noteq> []"
    then obtain d ds where "cs = d # ds" and "isDigit d"
      by (cases cs) (auto split: if_splits)
    with hit have "hasDollarDigit (c # cs)" by simp
    with "2.prems" show False by simp
  qed
  moreover have "\<not> hasDollarDigit cs"
    using "2.prems" hasDollarDigit_tail by blast
  ultimately show ?case
    using "2.IH"(2) by auto
qed

lemma collapseNewlines_id: "\<not> hasTripleNewline s \<Longrightarrow> collapseNewlines s = s"
proof (induction s rule: collapseNewlines.induct)
  case 1
  show ?case by simp
next
  case (2 c cs)
  have short: "\<not> (c = NL \<and> 2 \<le> length (takeWhile (\<lambda>d. d = NL) cs))"
  proof
    assume run: "c = NL \<and> 2 \<le> length (takeWhile (\<lambda>d. d = NL) cs)"
    then obtain d ds where cs: "cs = d # ds" and d: "d = NL"
      by (cases cs) (auto split: if_splits)
    with run obtain e es where "ds = e # es" and "e = NL"
      by (cases ds) (auto split: if_splits)
    with cs d run have "startsWith (c # cs) [NL, NL, NL]" by simp
    then have "hasTripleNewline (c # cs)"
      by (simp add: hasTripleNewline_def)
    with "2.prems" show False by simp
  qed
  moreover have "\<not> hasTripleNewline cs"
    using "2.prems" by (simp add: hasTripleNewline_def)
  ultimately show ?case
    using "2.IH"(2) by auto
qed

text \<open>
  C7 (as amended).  A source without markup is parsed into at most one text node; let
  \<open>t\<close> be its text (the source without the white space the parser drops in front
  of the body and with its character references decoded; no node when \<open>t\<close> is
  empty).  The Markdown conversion returns \<open>t\<close> with every dollar sign before digits
  escaped, then trimmed, then with every run of three or more line feeds collapsed to
  two.  When \<open>t\<close> has no dollar sign followed by a digit and trims to the same string
  as the source, the output is the trimmed source after the collapse of line feeds,
  and it is the trimmed source itself when that has no run of three line feeds.
\<close>

theorem markdown_of_plain_text:
  assumes "parse s = (if t = [] then [] else [Text t])"
  shows "convertHtmlToMarkdown parse s = collapseNewlines (trim (escapeDollar t))
    \<and> (\<not> hasDollarDigit t \<and> trim t = trim s \<longrightarrow>
          convertHtmlToMarkdown parse s = collapseNewlines (trim s))
    \<and> (\<not> hasDollarDigit t \<and> trim t = trim s \<and> \<not> hasTripleNewline (trim s) \<longrightarrow>
          convertHtmlToMarkdown parse s = trim s)"
proof -
  have out: "convertHtmlToMarkdown parse s = collapseNewlines (trim (escapeDollar t))"
    using assms by (cases "t = []") (simp_all add: convertHtmlToMarkdown_def markdownOfBody_def trim_def)
  show ?thesis
    using out by (auto simp: escapeDollar_id collapseNewlines_id)
qed

theorem markdown_of_plain_text_witness:
  "parseBody (zoneRuntime 0 []) '' Read chapter 2 '' = [Text ''Read chapter 2 '']
   \<and> trim ''Read chapter 2 '' = trim '' Read chapter 2 ''
   \<and> convertHtmlToMarkdown (parseBody (zoneRuntime 0 [])) '' Read chapter 2 '' = ''Read chapter 2''
   \<and> convertHtmlToMarkdown (\<lambda>h. [Text ''AT&T'']) ''AT&amp;T'' = ''AT&T''
   \<and> convertHtmlToMarkdown (parseBody (zoneRuntime 0 [])) ''Pay $20 now''
       = ''Pay '' @ BS # ''$20 now''"
proof -
  have parsed: "parseBody (zoneRuntime 0 []) '' Read chapter 2 ''
      = (if ''Read chapter 2 '' = [] then [] else [Text ''Read chapter 2 ''])"
    by code_simp
  have clean: "\<not> hasDollarDigit ''Read chapter 2 ''"
    "trim ''Read chapter 2 '' = trim '' Read chapter 2 ''"
    "\<not> hasTripleNewline (trim '' Read chapter 2 '')"
    by code_simp+
  have trimmed: "trim '' Read chapter 2 '' = ''Read chapter 2''"
    by code_simp
  have "convertHtmlToMarkdown (parseBody (zoneRuntime 0 [])) '' Read chapter 2 ''
      = trim '' Read chapter 2 ''"
    using parsed clean
      markdown_of_plain_text [of "parseBody (zoneRuntime 0 [])" "'' Read chapter 2 ''"
        "''Read chapter 2 ''"]
    by blast
  then have plain: "convertHtmlToMarkdown (parseBody (zoneRuntime 0 [])) '' Read chapter 2 ''
      = ''Read chapter 2''"
    by (simp only: trimmed)
  have decoded: "(\<lambda>h. [Text ''AT&T'']) ''AT&amp;T'' = (if ''AT&T'' = [] then [] else [Text ''AT&T''])"
    by simp
  have "convertHtmlToMarkdown (\<lambda>h. [Text ''AT&T'']) ''AT&amp;T''
      = collapseNewlines (trim (escapeDollar ''AT&T''))"
    using decoded
      markdown_of_plain_text [of "\<lambda>h. [Text ''AT&T'']" "''AT&amp;T''" "''AT&T''"]
    by blast
  moreover have "collapseNewlines (trim (escapeDollar ''AT&T'')) = ''AT&T''"
    by code_simp
  ultimately have reference: "convertHtmlToMarkdown (\<lambda>h. [Text ''AT&T'']) ''AT&amp;T'' = ''AT&T''"
    by (simp only:)
  have priced: "parseBody (zoneRuntime 0 []) ''Pay $20 now''
      = (if ''Pay $20 now'' = [] then [] else [Text ''Pay $20 now''])"
    by code_simp
  have "convertHtmlToMarkdown (parseBody (zoneRuntime 0 [])) ''Pay $20 now''
      = collapseNewlines (trim (escapeDollar ''Pay $20 now''))"
    using priced
      markdown_of_plain_text [of "parseBody (zoneRuntime 0 [])" "''Pay $20 now''" "''Pay $20 now''"]
    by blast
  moreover have "collapseNewlines (trim (escapeDollar ''Pay $20 now'')) = ''Pay '' @ BS # ''$20 now''"
    by code_simp
  ultimately have escaped: "convertHtmlToMarkdown (parseBody (zoneRuntime 0 [])) ''Pay $20 now''
      = ''Pay '' @ BS # ''$20 now''"
    by (simp only:)
  have body: "parseBody (zoneRuntime 0 []) '' Read chapter 2 '' = [Text ''Read chapter 2 '']"
    by code_simp
  show ?thesis
    using body clean(2) plain reference escaped by blast
qed

text \<open>
  C7 as stated fails on the plain text \<^verbatim>\<open>$1\<close>: the conversion returns it escaped,
  not the trimmed input.
\<close>

theorem markdown_of_plain_text_escapes_dollar:
  "convertHtmlToMarkdown (parseBody (zoneRuntime 0 [])) ''$1'' = BS # ''$1''
   \<and> trim ''$1'' = ''$1''
   \<and> convertHtmlToMarkdown (parseBody (zoneRuntime 0 [])) ''$1'' \<noteq> trim ''$1''"
  by code_simp

subsection \<open>Failures at the handler boundary\<close>




subsection \<open>Conditional sections of the assignment report\<close>

text \<open>
  C9.  Each conditional block of the assignment-detail handler adds no line exactly
  when its source field is absent or false: the attempts line when
  \<^verbatim>\<open>allowed_attempts\<close> is null or -1 (for 3 the line is
  \<^verbatim>\<open>- **Allowed Attempts:** 3\<close>), the time restrictions when neither date is set,
  the group, peer-review, plagiarism and lock blocks when their flags are false, the
  external tool when it has no URL, the rubric when it has no criterion, the special
  requirements when none of their three fields is set, the links when none was
  extracted.  The report is the header, these blocks, the grading type, the word
  count, the file types and the description, in the order of the handler.
\<close>

theorem detail_sections_follow_fields:
  "(attemptLines a = []) = (allowed_attempts a = None \<or> allowed_attempts a = Some (- 1))
   \<and> (allowed_attempts a = Some 3 \<longrightarrow> attemptLines a = [''- **Allowed Attempts:** 3''])
   \<and> (timeRestrictionLines rt a = []) = (\<not> truthy (unlock_at a) \<and> \<not> truthy (lock_at a))
   \<and> (groupLines a = []) = (\<not> has_group_assignment a)
   \<and> (peerReviewLines a = []) = (\<not> peer_reviews a)
   \<and> (externalToolLines a = [])
       = (case external_tool_tag_attributes a of None \<Rightarrow> True | Some tool \<Rightarrow> url tool = [])
   \<and> (plagiarismLines a = []) = (\<not> turnitin_enabled a \<and> \<not> vericite_enabled a)
   \<and> (rubricLines a = []) = (case rubric a of None \<Rightarrow> True | Some criteria \<Rightarrow> criteria = [])
   \<and> (specialRequirementLines a = [])
       = (\<not> anonymize_students a \<and> \<not> require_lockdown_browser a
          \<and> \<not> truthyNumber (annotatable_attachment_id a))
   \<and> (lockLines a = []) = (\<not> locked_for_user a)
   \<and> (linkLines (if truthy (description a) then extractLinks (parseBody rt) (description a) else [])
        = [])
       = (extractLinks (parseBody rt) (description a) = [])
   \<and> (canvasApiRequest cfg (fetchAssignment cv)
          (''/courses/'' @ showId courseArg @ ''/assignments/'' @ showId assignmentArg) = Inr a \<longrightarrow>
        get_assignment rt cfg cv courseArg assignmentArg format
          = Returned (textResult (join [NL]
              (headerLines rt courseArg a
               @ fileTypeLines a
               @ attemptLines a
               @ gradingTypeLines a
               @ timeRestrictionLines rt a
               @ groupLines a
               @ peerReviewLines a
               @ wordCountLines a
               @ externalToolLines a
               @ plagiarismLines a
               @ rubricLines a
               @ specialRequirementLines a
               @ lockLines a
               @ [[], ''## Description'', [], descriptionText rt format (description a)]
               @ linkLines (if truthy (description a)
                            then extractLinks (parseBody rt) (description a) else [])))))"
proof -
  have attempts: "(attemptLines a = []) = (allowed_attempts a = None \<or> allowed_attempts a = Some (- 1))"
    by (simp add: attemptLines_def)
  have three: "allowed_attempts a = Some 3 \<longrightarrow> attemptLines a = [''- **Allowed Attempts:** 3'']"
    by (simp add: attemptLines_def showInt_def digitsOf.simps char_of_digit)
  have times: "(timeRestrictionLines rt a = []) = (\<not> truthy (unlock_at a) \<and> \<not> truthy (lock_at a))"
    by (simp add: timeRestrictionLines_def)
  have flags: "(groupLines a = []) = (\<not> has_group_assignment a)"
    "(peerReviewLines a = []) = (\<not> peer_reviews a)"
    "(plagiarismLines a = []) = (\<not> turnitin_enabled a \<and> \<not> vericite_enabled a)"
    "(lockLines a = []) = (\<not> locked_for_user a)"
    by (simp_all add: groupLines_def peerReviewLines_def plagiarismLines_def lockLines_def)
  have tool: "(externalToolLines a = [])
       = (case external_tool_tag_attributes a of None \<Rightarrow> True | Some tool \<Rightarrow> url tool = [])"
    by (simp add: externalToolLines_def split: option.splits)
  have rubric: "(rubricLines a = []) = (case rubric a of None \<Rightarrow> True | Some criteria \<Rightarrow> criteria = [])"
    by (simp add: rubricLines_def split: option.splits)
  have special: "(specialRequirementLines a = [])
       = (\<not> anonymize_students a \<and> \<not> require_lockdown_browser a
          \<and> \<not> truthyNumber (annotatable_attachment_id a))"
    by (simp add: specialRequirementLines_def specialReqs_def)
  have links: "(linkLines (if truthy (description a) then extractLinks (parseBody rt) (description a) else [])
        = [])
       = (extractLinks (parseBody rt) (description a) = [])"
    by (auto simp: linkLines_def extractLinks_def truthy_def split: option.splits)
  have report: "canvasApiRequest cfg (fetchAssignment cv)
          (''/courses/'' @ showId courseArg @ ''/assignments/'' @ showId assignmentArg) = Inr a \<longrightarrow>
        get_assignment rt cfg cv courseArg assignmentArg format
          = Returned (textResult (join [NL]
              (headerLines rt courseArg a
               @ fileTypeLines a
               @ attemptLines a
               @ gradingTypeLines a
               @ timeRestrictionLines rt a
               @ groupLines a
               @ peerReviewLines a
               @ wordCountLines a
               @ externalToolLines a
               @ plagiarismLines a
               @ rubricLines a
               @ specialRequirementLines a
               @ lockLines a
               @ [[], ''## Description'', [], descriptionText rt format (description a)]
               @ linkLines (if truthy (description a)
                            then extractLinks (parseBody rt) (description a) else []))))"
    unfolding get_assignment_def assignmentDetails_def Let_def by simp
  show ?thesis
    using attempts three times flags tool rubric special links report by blast
qed

theorem detail_sections_follow_fields_witness:
  "allowed_attempts ((exampleAssignment 7 ''Essay'' None)\<lparr>allowed_attempts := Some 3\<rparr>) = Some 3
   \<and> attemptLines ((exampleAssignment 7 ''Essay'' None)\<lparr>allowed_attempts := Some 3\<rparr>)
       = [''- **Allowed Attempts:** 3'']
   \<and> attemptLines ((exampleAssignment 7 ''Essay'' None)\<lparr>allowed_attempts := Some (- 1)\<rparr>) = []
   \<and> attemptLines ((exampleAssignment 7 ''Essay'' None)\<lparr>allowed_attempts := None\<rparr>) = []
   \<and> get_assignment (zoneRuntime 0 []) exampleConfig
        (exampleCanvas\<lparr>fetchAssignment :=
           (\<lambda>u. okResponse ((exampleAssignment 7 ''Essay'' None)\<lparr>allowed_attempts := Some 3\<rparr>))\<rparr>)
        (IdNumber 1) (IdNumber 7) markdown
       = Returned
           \<lparr>resultText = ''# Essay\<newline>\<newline>**Course ID:** 1\<newline>**Assignment ID:** 7\<newline>**Due Date:** No date set\<newline>**Points Possible:** 10\<newline>**Status:** Published\<newline>\<newline>## Submission Requirements\<newline>- **Submission Type:** online_upload\<newline>- **Allowed Attempts:** 3\<newline>- **Grading Type:** points\<newline>\<newline>## Description\<newline>\<newline>No description available'',
            isError = False\<rparr>"
proof -
  let ?a = "exampleAssignment 7 ''Essay'' None"
  have three: "allowed_attempts (?a\<lparr>allowed_attempts := Some 3\<rparr>) = Some 3"
    by simp
  then have shown: "attemptLines (?a\<lparr>allowed_attempts := Some 3\<rparr>) = [''- **Allowed Attempts:** 3'']"
    using detail_sections_follow_fields [of "?a\<lparr>allowed_attempts := Some 3\<rparr>"] by blast
  have unlimited: "attemptLines (?a\<lparr>allowed_attempts := Some (- 1)\<rparr>) = []"
    using detail_sections_follow_fields [of "?a\<lparr>allowed_attempts := Some (- 1)\<rparr>"] by simp
  have unset: "attemptLines (?a\<lparr>allowed_attempts := None\<rparr>) = []"
    using detail_sections_follow_fields [of "?a\<lparr>allowed_attempts := None\<rparr>"] by simp
  have report: "get_assignment (zoneRuntime 0 []) exampleConfig
        (exampleCanvas\<lparr>fetchAssignment := (\<lambda>u. okResponse (?a\<lparr>allowed_attempts := Some 3\<rparr>))\<rparr>)
        (IdNumber 1) (IdNumber 7) markdown
       = Returned
           \<lparr>resultText = ''# Essay\<newline>\<newline>**Course ID:** 1\<newline>**Assignment ID:** 7\<newline>**Due Date:** No date set\<newline>**Points Possible:** 10\<newline>**Status:** Published\<newline>\<newline>## Submission Requirements\<newline>- **Submission Type:** online_upload\<newline>- **Allowed Attempts:** 3\<newline>- **Grading Type:** points\<newline>\<newline>## Description\<newline>\<newline>No description available'',
            isError = False\<rparr>"
    by code_simp
  show ?thesis
    using three shown unlimited unset report by blast
qed

end
